theory Spec2Isabelle
  imports Main "HOL-Library.Sublist"
begin

section \<open>JavaScript strings and arrays\<close>

text \<open>
  The recorders build SDP documents and muxer arguments from template literals.
  A template literal renders a non-negative integer below \<open>10^21\<close> in decimal;
  \<open>nat_str\<close> is that rendering.  \<open>join\<close> is \<^verbatim>\<open>Array.prototype.join\<close>.
\<close>

definition digit_char :: "nat \<Rightarrow> char" where
  "digit_char d = ''0123456789'' ! d"

fun nat_str :: "nat \<Rightarrow> string" where
  "nat_str n = (if n < 10 then [digit_char n] else nat_str (n div 10) @ [digit_char (n mod 10)])"

declare nat_str.simps [simp del]

fun join :: "string \<Rightarrow> string list \<Rightarrow> string" where
  "join sep [] = []"
| "join sep [x] = x"
| "join sep (x # y # ys) = x @ sep @ join sep (y # ys)"

section \<open>Mixed recorder: grid layout and filter graph\<close>

text \<open>
  \<^verbatim>\<open>_computeLayout(numVideos, width, height)\<close> of
  \<^verbatim>\<open>mixed-recording-manager.js\<close>.  \<^verbatim>\<open>Math.floor(width / 2)\<close> on a
  non-negative integer is \<open>div 2\<close>.
\<close>

record layout =
  rows :: nat
  cols :: nat
  cellW :: nat
  cellH :: nat

definition computeLayout :: "nat \<Rightarrow> nat \<Rightarrow> nat \<Rightarrow> layout" where
  "computeLayout numVideos width height =
     (if numVideos \<le> 1 then \<lparr>rows = 1, cols = 1, cellW = width, cellH = height\<rparr>
      else if numVideos = 2 then \<lparr>rows = 1, cols = 2, cellW = width div 2, cellH = height\<rparr>
      else if numVideos = 3 then
        \<lparr>rows = 2, cols = 2, cellW = width div 2, cellH = height div 2\<rparr>
      else \<lparr>rows = 2, cols = 2, cellW = width div 2, cellH = height div 2\<rparr>)"

text \<open>
  \<^verbatim>\<open>_buildFilterComplex(videoCount, audioCount, targetW, targetH)\<close>.  Each
  \<^verbatim>\<open>for\<close> loop that pushes onto an array is a map over the index range; the
  nested loop over \<open>r\<close> and \<open>c\<close> pushes a layout entry only when
  \<open>r * cols + c < videoCount\<close>.
\<close>

definition videoChain :: "layout \<Rightarrow> nat \<Rightarrow> string" where
  "videoChain L i =
     ''['' @ nat_str i @ '':v]'' @
     ''scale='' @ nat_str (cellW L) @ '':'' @ nat_str (cellH L) @
       '':force_original_aspect_ratio=decrease:eval=frame,'' @
     ''pad='' @ nat_str (cellW L) @ '':'' @ nat_str (cellH L) @
       '':(ow-iw)/2:(oh-ih)/2:color=black,'' @
     ''fps=25,setsar=1,format=yuv420p[v'' @ nat_str i @ '']''"

definition videoLabels :: "nat \<Rightarrow> string list" where
  "videoLabels videoCount = map (\<lambda>i. ''[v'' @ nat_str i @ '']'') [0..<videoCount]"

definition layoutEntry :: "layout \<Rightarrow> nat \<Rightarrow> nat \<Rightarrow> string" where
  "layoutEntry L r c = nat_str (c * cellW L) @ ''_'' @ nat_str (r * cellH L)"

definition layoutParts :: "nat \<Rightarrow> nat \<Rightarrow> nat \<Rightarrow> string list" where
  "layoutParts videoCount targetW targetH =
     (let L = computeLayout videoCount targetW targetH in
      concat (map (\<lambda>r.
        concat (map (\<lambda>c. if r * cols L + c < videoCount then [layoutEntry L r c] else [])
                    [0..<cols L]))
        [0..<rows L]))"

definition xstackPart :: "nat \<Rightarrow> nat \<Rightarrow> nat \<Rightarrow> string" where
  "xstackPart videoCount targetW targetH =
     join [] (videoLabels videoCount) @ ''xstack=inputs='' @ nat_str videoCount @
     '':layout='' @ join ''|'' (layoutParts videoCount targetW targetH) @
     '':fill=black:shortest=0[vtmp]''"

definition audioParts :: "nat \<Rightarrow> nat \<Rightarrow> string list" where
  "audioParts videoCount audioCount =
     (if audioCount > 0 then
        map (\<lambda>j. ''['' @ nat_str (videoCount + j) @
                  '':a]aresample=async=1:min_hard_comp=0.100:first_pts=0[a'' @ nat_str j @ '']'')
            [0..<audioCount] @
        (if audioCount = 1 then [''[a'' @ nat_str 0 @ '']'' @ ''asetpts=PTS-STARTPTS[aout]'']
         else [join [] (map (\<lambda>j. ''[a'' @ nat_str j @ '']'') [0..<audioCount]) @
               ''amix=inputs='' @ nat_str audioCount @
               '':normalize=0:duration=longest:dropout_transition=2[amix]'',
               ''[amix]asetpts=PTS-STARTPTS[aout]''])
      else [])"

definition filterParts :: "nat \<Rightarrow> nat \<Rightarrow> nat \<Rightarrow> nat \<Rightarrow> string list" where
  "filterParts videoCount audioCount targetW targetH =
     map (videoChain (computeLayout videoCount targetW targetH)) [0..<videoCount] @
     [xstackPart videoCount targetW targetH, ''[vtmp]setpts=PTS-STARTPTS[vout]''] @
     audioParts videoCount audioCount"

definition buildFilterComplex :: "nat \<Rightarrow> nat \<Rightarrow> nat \<Rightarrow> nat \<Rightarrow> string" where
  "buildFilterComplex videoCount audioCount targetW targetH =
     join '';'' (filterParts videoCount audioCount targetW targetH)"

section \<open>RTP parameters and codec extraction\<close>

text \<open>
  A producer or consumer kind is \<^verbatim>\<open>'audio'\<close> or \<^verbatim>\<open>'video'\<close>.  A codec entry of
  \<^verbatim>\<open>rtpParameters.codecs\<close> carries its MIME type, payload type, clock rate, an
  optional channel count and an optional \<^verbatim>\<open>parameters\<close> object, kept as the ordered
  list of its entries (values already rendered as text).  In \<open>rtpParameters\<close> the
  field \<open>codecs\<close> is \<open>None\<close> when the property is missing or not an array; a
  value of type \<open>rtpParameters option\<close> is \<open>None\<close> for \<^verbatim>\<open>null\<close> or
  \<^verbatim>\<open>undefined\<close>.
\<close>

datatype kind = Audio | Video

definition kind_str :: "kind \<Rightarrow> string" where
  "kind_str k = (case k of Audio \<Rightarrow> ''audio'' | Video \<Rightarrow> ''video'')"

record codec =
  mimeType :: string
  payloadType :: nat
  clockRate :: nat
  channels :: "nat option"
  parameters :: "(string \<times> string) list option"

record rtpParameters =
  codecs :: "codec list option"

text \<open>String helpers: \<^verbatim>\<open>toLowerCase\<close> on ASCII, \<^verbatim>\<open>includes\<close>,
  \<^verbatim>\<open>split('/')\<close>, \<^verbatim>\<open>replace\<close> of the first occurrence, and the rendering of a
  possibly undefined string in a template literal.\<close>

definition lower_char :: "char \<Rightarrow> char" where
  "lower_char c =
     (let n = (of_char c :: nat) in if 65 \<le> n \<and> n \<le> 90 then char_of (n + 32) else c)"

definition toLowerCase :: "string \<Rightarrow> string" where
  "toLowerCase s = map lower_char s"

fun str_includes :: "string \<Rightarrow> string \<Rightarrow> bool" where
  "str_includes [] pat = (pat = [])"
| "str_includes (c # cs) pat = (prefix pat (c # cs) \<or> str_includes cs pat)"

fun split_char :: "char \<Rightarrow> string \<Rightarrow> string list" where
  "split_char d [] = [[]]"
| "split_char d (c # cs) =
     (if c = d then [] # split_char d cs
      else (case split_char d cs of [] \<Rightarrow> [[c]] | w # ws \<Rightarrow> (c # w) # ws))"

definition second_segment :: "string \<Rightarrow> string option" where
  "second_segment s = (case split_char CHR ''/'' s of _ # y # _ \<Rightarrow> Some y | _ \<Rightarrow> None)"

fun replace_first :: "string \<Rightarrow> string \<Rightarrow> string" where
  "replace_first pat [] = []"
| "replace_first pat (c # cs) =
     (if prefix pat (c # cs) then drop (length pat) (c # cs) else c # replace_first pat cs)"

definition tmpl :: "string option \<Rightarrow> string" where
  "tmpl s = (case s of None \<Rightarrow> ''undefined'' | Some t \<Rightarrow> t)"

text \<open>\<^verbatim>\<open>channels || 2\<close>: an undefined or zero channel count gives 2.\<close>

definition channels_or_2 :: "nat option \<Rightarrow> nat" where
  "channels_or_2 ch = (case ch of None \<Rightarrow> 2 | Some n \<Rightarrow> if n = 0 then 2 else n)"

text \<open>The \<^verbatim>\<open>k=v;k=v\<close> rendering of a \<^verbatim>\<open>parameters\<close> object.\<close>

definition fmtpParams :: "(string \<times> string) list \<Rightarrow> string" where
  "fmtpParams ps = join '';'' (map (\<lambda>(k, v). k @ ''='' @ v) ps)"

text \<open>
  \<^verbatim>\<open>_codecFromRtpParameters(kind, rtpParameters)\<close> of the mixed recorder and
  \<^verbatim>\<open>_codecInfo(kind, rtpParameters)\<close> of the per-participant recorder have the same
  body: the first codec whose lower-cased MIME type contains the kind, or
  \<^verbatim>\<open>null\<close> (\<open>None\<close>).
\<close>

record codecInfo =
  ci_payloadType :: nat
  ci_codecName :: "string option"
  ci_clockRate :: nat
  ci_channels :: "nat option"
  ci_fmtp :: string

definition codecInfoOf :: "kind \<Rightarrow> codec \<Rightarrow> codecInfo" where
  "codecInfoOf k c =
     \<lparr>ci_payloadType = payloadType c,
      ci_codecName = second_segment (mimeType c),
      ci_clockRate = clockRate c,
      ci_channels = (if k = Audio then Some (channels_or_2 (channels c)) else None),
      ci_fmtp = (case parameters c of
                   None \<Rightarrow> []
                 | Some ps \<Rightarrow> if length ps \<noteq> 0 then fmtpParams ps else [])\<rparr>"

definition codecFromRtpParameters :: "kind \<Rightarrow> rtpParameters option \<Rightarrow> codecInfo option" where
  "codecFromRtpParameters k rtp =
     (case rtp of
        None \<Rightarrow> None
      | Some r \<Rightarrow>
          (case codecs r of
             None \<Rightarrow> None
           | Some cs \<Rightarrow>
               (case find (\<lambda>x. str_includes (toLowerCase (mimeType x)) (kind_str k)) cs of
                  None \<Rightarrow> None
                | Some c \<Rightarrow> Some (codecInfoOf k c))))"

definition codecInfo :: "kind \<Rightarrow> rtpParameters option \<Rightarrow> codecInfo option" where
  "codecInfo k rtp =
     (case rtp of
        None \<Rightarrow> None
      | Some r \<Rightarrow>
          (case codecs r of
             None \<Rightarrow> None
           | Some cs \<Rightarrow>
               (case find (\<lambda>x. str_includes (toLowerCase (mimeType x)) (kind_str k)) cs of
                  None \<Rightarrow> None
                | Some c \<Rightarrow> Some (codecInfoOf k c))))"

section \<open>SDP synthesis\<close>

definition sdpPreamble :: "string \<Rightarrow> string list" where
  "sdpPreamble name =
     [''v=0'', ''o=- 0 0 IN IP4 127.0.0.1'', ''s='' @ name, ''c=IN IP4 127.0.0.1'', ''t=0 0'']"

definition mLine :: "kind \<Rightarrow> nat \<Rightarrow> nat \<Rightarrow> string" where
  "mLine k port pt = ''m='' @ kind_str k @ '' '' @ nat_str port @ '' RTP/AVP '' @ nat_str pt"

definition fmtpLine :: "nat \<Rightarrow> string \<Rightarrow> string" where
  "fmtpLine pt fmtp = ''a=fmtp:'' @ nat_str pt @ '' '' @ fmtp"

text \<open>
  \<^verbatim>\<open>_buildPerInputSdp({ kind, codecName, clockRate, channels, payloadType, port, fmtp })\<close>
  of \<^verbatim>\<open>mixed-recording-manager.js\<close>.  \<^verbatim>\<open>if (fmtp)\<close> holds for a non-empty
  string.
\<close>

definition buildPerInputSdpLines ::
  "kind \<Rightarrow> string option \<Rightarrow> nat \<Rightarrow> nat option \<Rightarrow> nat \<Rightarrow> nat \<Rightarrow> string \<Rightarrow> string list" where
  "buildPerInputSdpLines k codecName clockRt chans pt port fmtp =
     sdpPreamble ''FFmpegInput'' @
     (if k = Video then
        [''m=video '' @ nat_str port @ '' RTP/AVP '' @ nat_str pt,
         ''a=rtpmap:'' @ nat_str pt @ '' '' @ tmpl codecName @ ''/'' @ nat_str clockRt,
         ''a=rtcp:'' @ nat_str (port + 1) @ '' IN IP4 127.0.0.1'',
         ''a=recvonly''] @
        (if fmtp \<noteq> [] then [fmtpLine pt fmtp] else [])
      else
        [''m=audio '' @ nat_str port @ '' RTP/AVP '' @ nat_str pt,
         ''a=rtpmap:'' @ nat_str pt @ '' '' @ tmpl codecName @ ''/'' @ nat_str clockRt @
           ''/'' @ nat_str (channels_or_2 chans),
         ''a=rtcp:'' @ nat_str (port + 1) @ '' IN IP4 127.0.0.1'',
         ''a=recvonly''] @
        (if fmtp \<noteq> [] then [fmtpLine pt fmtp] else []))"

definition buildPerInputSdp ::
  "kind \<Rightarrow> string option \<Rightarrow> nat \<Rightarrow> nat option \<Rightarrow> nat \<Rightarrow> nat \<Rightarrow> string \<Rightarrow> string" where
  "buildPerInputSdp k codecName clockRt chans pt port fmtp =
     join [CHR 0x0A] (buildPerInputSdpLines k codecName clockRt chans pt port fmtp) @ [CHR 0x0A]"

text \<open>
  \<^verbatim>\<open>_sdpFor(kind, payloadType, codecName, clockRate, port, channels, fmtp)\<close> of
  \<^verbatim>\<open>per-participant-recorder.js\<close>.
\<close>

definition sdpForLines ::
  "kind \<Rightarrow> nat \<Rightarrow> string option \<Rightarrow> nat \<Rightarrow> nat \<Rightarrow> nat option \<Rightarrow> string \<Rightarrow> string list" where
  "sdpForLines k pt codecName clockRt port chans fmtp =
     sdpPreamble ''FFmpegInput'' @
     (if k = Video then
        [''m=video '' @ nat_str port @ '' RTP/AVP '' @ nat_str pt,
         ''a=rtpmap:'' @ nat_str pt @ '' '' @ tmpl codecName @ ''/'' @ nat_str clockRt,
         ''a=recvonly''] @
        (if fmtp \<noteq> [] then [fmtpLine pt fmtp] else [])
      else
        [''m=audio '' @ nat_str port @ '' RTP/AVP '' @ nat_str pt,
         ''a=rtpmap:'' @ nat_str pt @ '' '' @ tmpl codecName @ ''/'' @ nat_str clockRt @
           ''/'' @ nat_str (channels_or_2 chans),
         ''a=recvonly''] @
        (if fmtp \<noteq> [] then [fmtpLine pt fmtp] else []))"

definition sdpFor ::
  "kind \<Rightarrow> nat \<Rightarrow> string option \<Rightarrow> nat \<Rightarrow> nat \<Rightarrow> nat option \<Rightarrow> string \<Rightarrow> string" where
  "sdpFor k pt codecName clockRt port chans fmtp =
     join [CHR 0x0A] (sdpForLines k pt codecName clockRt port chans fmtp) @ [CHR 0x0A]"

section \<open>Errors\<close>

text \<open>Every \<^verbatim>\<open>throw\<close> of the modelled functions, and the \<^verbatim>\<open>TypeError\<close> that
  reading a property of \<^verbatim>\<open>null\<close> raises.\<close>

datatype error =
    RouterNotInitialized
  | NoProducers
  | NoMixableInputs
  | NoFreeUdpPort
  | NoCodecsFound
  | TypeErrorNull
  | RecordingNotFound
  | RoomNotInitialized

section \<open>The combined SDP of the single-file recorder\<close>

text \<open>
  \<^verbatim>\<open>getCodecInfoFromRtpParameters(kind, rtpParameters)\<close> (utils) reads the first
  codec of the parameters it is given and throws when there is none.
\<close>

record rtpCodecInfo =
  gi_payloadType :: nat
  gi_codecName :: string
  gi_clockRate :: nat
  gi_channels :: "nat option"

definition getCodecInfoFromRtpParameters ::
  "kind \<Rightarrow> rtpParameters option \<Rightarrow> error + rtpCodecInfo" where
  "getCodecInfoFromRtpParameters k rtp =
     (case rtp of
        None \<Rightarrow> Inl NoCodecsFound
      | Some r \<Rightarrow>
          (case codecs r of
             None \<Rightarrow> Inl NoCodecsFound
           | Some [] \<Rightarrow> Inl NoCodecsFound
           | Some (c # _) \<Rightarrow>
               Inr \<lparr>gi_payloadType = payloadType c,
                    gi_codecName = replace_first (kind_str k @ ''/'') (mimeType c),
                    gi_clockRate = clockRate c,
                    gi_channels = (if k = Audio then channels c else None)\<rparr>))"

text \<open>The guard \<^verbatim>\<open>codec && codec.codecs && Array.isArray(codec.codecs) &&
  codec.codecs.length > 0\<close> of \<^verbatim>\<open>createSdpText\<close>, giving the first codec.\<close>

definition firstCodec :: "rtpParameters option \<Rightarrow> codec option" where
  "firstCodec rtp =
     (case rtp of
        None \<Rightarrow> None
      | Some r \<Rightarrow> (case codecs r of None \<Rightarrow> None | Some [] \<Rightarrow> None | Some (c # _) \<Rightarrow> Some c))"

definition mediaSection :: "kind \<Rightarrow> rtpParameters option \<Rightarrow> nat \<Rightarrow> error + string list" where
  "mediaSection k rtp port =
     (case firstCodec rtp of
        None \<Rightarrow> Inr []
      | Some c0 \<Rightarrow>
          (case getCodecInfoFromRtpParameters k rtp of
             Inl e \<Rightarrow> Inl e
           | Inr info \<Rightarrow>
               Inr ([''m='' @ kind_str k @ '' '' @ nat_str port @ '' RTP/AVP '' @
                       nat_str (gi_payloadType info),
                     ''a=rtpmap:'' @ nat_str (gi_payloadType info) @ '' '' @ gi_codecName info @
                       ''/'' @ nat_str (gi_clockRate info) @
                       (if k = Audio then ''/'' @ nat_str (channels_or_2 (gi_channels info))
                        else []),
                     ''a=recvonly''] @
                    (case parameters c0 of
                       None \<Rightarrow> []
                     | Some ps \<Rightarrow> [fmtpLine (gi_payloadType info) (fmtpParams ps)]))))"

text \<open>
  \<^verbatim>\<open>createSdpText({ videoCodec, audioCodec, remoteRtpPort, remoteAudioRtpPort })\<close>;
  the audio port is \<^verbatim>\<open>remoteAudioRtpPort || remoteRtpPort + 2\<close>.
\<close>

definition createSdpText ::
  "rtpParameters option \<Rightarrow> rtpParameters option \<Rightarrow> nat \<Rightarrow> nat option \<Rightarrow> error + string" where
  "createSdpText videoCodec audioCodec remoteRtpPort remoteAudioRtpPort =
     (case mediaSection Video videoCodec remoteRtpPort of
        Inl e \<Rightarrow> Inl e
      | Inr vs \<Rightarrow>
          (case mediaSection Audio audioCodec
                  (case remoteAudioRtpPort of
                     None \<Rightarrow> remoteRtpPort + 2
                   | Some a \<Rightarrow> if a = 0 then remoteRtpPort + 2 else a) of
             Inl e \<Rightarrow> Inl e
           | Inr as \<Rightarrow> Inr (join [CHR 0x0A] (sdpPreamble ''FFmpeg'' @ vs @ as) @ [CHR 0x0A])))"

section \<open>The SFU as seen by the recorders, and effects as a trace\<close>

text \<open>
  A producer carries its id, the id of its peer, its kind and its own RTP parameters.
  The SFU answers three questions, each keyed by producer id:
  \<^verbatim>\<open>router.canConsume\<close>, the \<^verbatim>\<open>rtpParameters\<close> of the consumer that
  \<^verbatim>\<open>transport.consume\<close> returns, and the outcome of the port allocation made while
  binding that producer.  Calls into the SFU are taken to succeed.  Every effect is
  appended to a trace, in program order; a transport, a consumer and a per-producer
  muxer are named by the producer id, the single muxer of a mixed recording by the
  recording id.
\<close>

record producer =
  p_id :: string
  p_peer :: string
  p_kind :: kind
  p_rtp :: "rtpParameters option"

record sfu =
  canConsume :: "string \<Rightarrow> bool"
  consumerRtp :: "string \<Rightarrow> rtpParameters option"
  freePort :: "string \<Rightarrow> error + nat"

datatype event =
    CreatePlainTransport string
  | Consume string string bool
  | TransportConnect string nat nat
  | WriteFile string string
  | Spawn string "string list"
  | StdinPipe string string
  | ConsumerResume string
  | RequestKeyFrame string
  | SetKeyframeTimer string nat
  | Sleep nat
  | WaitForClose string nat
  | StdinQuit string
  | Kill string string
  | ClearTimers
  | ConsumerClose string
  | TransportClose string
  | RegistrySet string
  | RegistryDelete string
  | ProbeDuration string
  | WriteMetadata string "string list"

section \<open>Mixed recorder: start\<close>

record mixInput =
  in_kind :: kind
  in_sdpPath :: string

record bound =
  b_inputs :: "mixInput list"
  b_transports :: "string list"
  b_consumers :: "(string \<times> kind) list"
  b_trace :: "event list"

text \<open>
  The two binding loops of \<^verbatim>\<open>startMixedRecording\<close> (one over the selected video
  producers, one over the audio producers) have the same body up to the kind: skip a
  producer the router cannot consume; create a plain transport and a paused consumer;
  when the consumer's parameters hold no codec of the kind, close the transport and
  skip; otherwise allocate a port, connect, write the SDP file and record the input.
  The video loop passes no \<^verbatim>\<open>channels\<close>.
\<close>

fun bindInputs :: "kind \<Rightarrow> sfu \<Rightarrow> string \<Rightarrow> producer list \<Rightarrow> bound \<Rightarrow> error + bound" where
  "bindInputs k s sdpDir [] acc = Inr acc"
| "bindInputs k s sdpDir (p # ps) acc =
     (if \<not> canConsume s (p_id p) then bindInputs k s sdpDir ps acc
      else
        (case codecFromRtpParameters k (consumerRtp s (p_id p)) of
           None \<Rightarrow>
             bindInputs k s sdpDir ps
               (acc\<lparr>b_trace := b_trace acc @
                  [CreatePlainTransport (p_id p), Consume (p_id p) (p_id p) True,
                   TransportClose (p_id p)]\<rparr>)
         | Some ci \<Rightarrow>
             (case freePort s (p_id p) of
                Inl e \<Rightarrow> Inl e
              | Inr port \<Rightarrow>
                  (let sdpText = buildPerInputSdp k (ci_codecName ci) (ci_clockRate ci)
                                   (if k = Audio then ci_channels ci else None)
                                   (ci_payloadType ci) port (ci_fmtp ci);
                       sdpPath = sdpDir @ ''/'' @ (if k = Video then ''v-'' else ''a-'') @
                                 p_id p @ ''.sdp''
                   in bindInputs k s sdpDir ps
                        \<lparr>b_inputs = b_inputs acc @ [\<lparr>in_kind = k, in_sdpPath = sdpPath\<rparr>],
                         b_transports = b_transports acc @ [p_id p],
                         b_consumers = b_consumers acc @ [(p_id p, k)],
                         b_trace = b_trace acc @
                           [CreatePlainTransport (p_id p), Consume (p_id p) (p_id p) True,
                            TransportConnect (p_id p) port (port + 1),
                            WriteFile sdpPath sdpText]\<rparr>))))"

definition mixedFfArgs :: "mixInput list \<Rightarrow> string \<Rightarrow> nat \<Rightarrow> string \<Rightarrow> string list" where
  "mixedFfArgs inputs filter_text audioCount outputPath =
     [''-y'', ''-loglevel'', ''info'', ''-fflags'', ''+genpts+nobuffer'', ''-flags'',
      ''low_delay'', ''-max_delay'', ''0'', ''-analyzeduration'', ''1000000'',
      ''-probesize'', ''1000000''] @
     concat (map (\<lambda>inp. [''-thread_queue_size'', ''1024'', ''-protocol_whitelist'',
                          ''file,crypto,data,udp,rtp'', ''-f'', ''sdp'', ''-i'', in_sdpPath inp])
                 inputs) @
     [''-filter_complex'', filter_text] @
     [''-map'', ''[vout]''] @
     (if audioCount > 0 then [''-map'', ''[aout]''] else []) @
     [''-use_wallclock_as_timestamps'', ''1'', ''-muxpreload'', ''0'', ''-muxdelay'', ''0'',
      ''-c:v'', ''libx264'', ''-preset'', ''ultrafast'', ''-tune'', ''zerolatency'',
      ''-profile:v'', ''baseline'', ''-pix_fmt'', ''yuv420p'', ''-g'', ''50'',
      ''-keyint_min'', ''50'', ''-c:a'', ''aac'', ''-b:a'', ''128k'', ''-movflags'',
      ''+faststart'', ''-map_metadata'', ''-1'', ''-map_chapters'', ''-1'', outputPath]"

record mixState =
  ms_recordingId :: string
  ms_fileName :: string
  ms_outputPath :: string
  ms_sdpDir :: string
  ms_transports :: "string list"
  ms_consumers :: "(string \<times> kind) list"
  ms_ff :: string
  ms_keyframeIntervals :: "string list"
  ms_startedAt :: int

text \<open>After the spawn each consumer is resumed, a video consumer is then asked for a
  key frame; every video consumer then gets a 2000 ms key-frame timer.\<close>

definition resumeAll :: "(string \<times> kind) list \<Rightarrow> event list" where
  "resumeAll cs =
     concat (map (\<lambda>(c, k). ConsumerResume c # (if k = Video then [RequestKeyFrame c] else [])) cs)"

definition videoConsumers :: "(string \<times> kind) list \<Rightarrow> string list" where
  "videoConsumers cs = map fst (filter (\<lambda>(c, k). k = Video) cs)"

text \<open>
  \<^verbatim>\<open>startMixedRecording({ room_id, user_name, width, height })\<close>.  The arguments
  are: whether the room has a router, the producers of all peers in enumeration order,
  the SFU, the two readings of the clock (for the recording id and for
  \<^verbatim>\<open>startedAt\<close>), the output directory, and the frame size.  The output directory
  is given in the normal form that \<^verbatim>\<open>path.join\<close> produces (the default
  \<^verbatim>\<open>./files\<close> is \<^verbatim>\<open>files\<close>), a relative path without \<^verbatim>\<open>.\<close>,
  \<^verbatim>\<open>..\<close> or empty segments; on such a directory and on names without a slash
  \<^verbatim>\<open>path.join\<close> is concatenation with a slash.
\<close>

definition startMixedRecording ::
  "bool \<Rightarrow> producer list \<Rightarrow> sfu \<Rightarrow> nat \<Rightarrow> int \<Rightarrow> string \<Rightarrow> nat \<Rightarrow> nat
     \<Rightarrow> error + mixState \<times> event list" where
  "startMixedRecording routerReady producers s now startedNow outDir width height =
     (if \<not> routerReady then Inl RouterNotInitialized
      else
        (let videoProducers = filter (\<lambda>p. p_kind p = Video) producers;
             audioProducers = filter (\<lambda>p. p_kind p = Audio) producers
         in if length videoProducers = 0 \<and> length audioProducers = 0 then Inl NoProducers
            else
              (let selectedVideos = take 4 videoProducers;
                   selectedAudios = audioProducers;
                   recordingId = ''rec-mix-'' @ nat_str now;
                   fileName = ''mixed-'' @ recordingId @ ''.mp4'';
                   sdpDir = outDir @ ''/sdp/'' @ recordingId;
                   outputPath = outDir @ ''/'' @ fileName
               in case bindInputs Video s sdpDir selectedVideos
                         \<lparr>b_inputs = [], b_transports = [], b_consumers = [], b_trace = []\<rparr> of
                    Inl e \<Rightarrow> Inl e
                  | Inr bv \<Rightarrow>
                      (case bindInputs Audio s sdpDir selectedAudios bv of
                         Inl e \<Rightarrow> Inl e
                       | Inr b \<Rightarrow>
                           if length (b_inputs b) = 0 then Inl NoMixableInputs
                           else
                             (let videoCount = length (filter (\<lambda>i. in_kind i = Video) (b_inputs b));
                                  audioCount = length (filter (\<lambda>i. in_kind i = Audio) (b_inputs b));
                                  filter_text = buildFilterComplex videoCount audioCount width height;
                                  ffArgs = mixedFfArgs (b_inputs b) filter_text audioCount outputPath
                              in Inr (\<lparr>ms_recordingId = recordingId,
                                       ms_fileName = fileName,
                                       ms_outputPath = outputPath,
                                       ms_sdpDir = sdpDir,
                                       ms_transports = b_transports b,
                                       ms_consumers = b_consumers b,
                                       ms_ff = recordingId,
                                       ms_keyframeIntervals = videoConsumers (b_consumers b),
                                       ms_startedAt = startedNow\<rparr>,
                                      b_trace b @ [Spawn recordingId ffArgs] @
                                      resumeAll (b_consumers b) @
                                      map (\<lambda>c. SetKeyframeTimer c 2000)
                                          (videoConsumers (b_consumers b)) @
                                      [RegistrySet recordingId]))))))"

section \<open>Mixed recorder: stop\<close>

text \<open>
  The minimum run time of \<^verbatim>\<open>stopMixedRecording\<close>.  In
  \<^verbatim>\<open>mixed-recording-manager.js\<close> the floor is 20000 ms and the elapsed time is
  measured from \<^verbatim>\<open>st.startedAt || Date.now()\<close>; the result is the delay handed to
  \<^verbatim>\<open>setTimeout\<close>, or \<open>None\<close> when the stop does not wait.
\<close>

definition minRunMs :: int where
  "minRunMs = 20000"

definition stopHold :: "int \<Rightarrow> int \<Rightarrow> int option" where
  "stopHold startedAt now =
     (let elapsed = now - (if startedAt = 0 then now else startedAt)
      in if elapsed < minRunMs then Some (minRunMs - elapsed) else None)"

text \<open>
  The later variant of the same function has a floor of 5000 ms and measures from
  \<^verbatim>\<open>st.ffmpegStartedAt || st.startedAt\<close>, where \<^verbatim>\<open>ffmpegStartedAt\<close> is
  \<^verbatim>\<open>null\<close> until the muxer is seen to process frames.
\<close>

definition minRunMs_later :: int where
  "minRunMs_later = 5000"

definition stopHold_later :: "int option \<Rightarrow> int \<Rightarrow> int \<Rightarrow> int option" where
  "stopHold_later ffmpegStartedAt startedAt now =
     (let actualStartTime = (case ffmpegStartedAt of
                               None \<Rightarrow> startedAt
                             | Some t \<Rightarrow> if t = 0 then startedAt else t);
          actualElapsed = now - actualStartTime
      in if actualElapsed < minRunMs_later then Some (minRunMs_later - actualElapsed) else None)"

text \<open>
  What the muxer does during a stop is not decided by the recorder:
  \<open>exits300\<close> says that \<^verbatim>\<open>_waitForProcessClose(st.ff, 300)\<close> returns true (the
  process had exited or closes within 300 ms), \<open>stdinUsable\<close> that
  \<^verbatim>\<open>st.ff.stdin && !st.ff.stdin.destroyed\<close> holds, \<open>exits30000\<close> and
  \<open>exits5000\<close> that the second and third waits return true.
\<close>

record muxerFate =
  exits300 :: bool
  stdinUsable :: bool
  exits30000 :: bool
  exits5000 :: bool

definition closeAll :: "mixState \<Rightarrow> event list" where
  "closeAll st = map (\<lambda>(c, k). ConsumerClose c) (ms_consumers st) @
                 map TransportClose (ms_transports st)"

definition holdEvents :: "mixState \<Rightarrow> int \<Rightarrow> event list" where
  "holdEvents st now =
     (case stopHold (ms_startedAt st) now of None \<Rightarrow> [] | Some d \<Rightarrow> [Sleep (nat d)])"

definition stopMixedTrace :: "mixState \<Rightarrow> int \<Rightarrow> muxerFate \<Rightarrow> event list" where
  "stopMixedTrace st now fate =
     holdEvents st now @
     [WaitForClose (ms_ff st) 300] @
     (if \<not> exits300 fate then
        (if stdinUsable fate then [StdinQuit (ms_ff st)] else []) @
        [WaitForClose (ms_ff st) 30000]
      else []) @
     (if \<not> (exits300 fate \<or> exits30000 fate) then
        closeAll st @ [WaitForClose (ms_ff st) 5000]
      else []) @
     [ClearTimers] @
     closeAll st @
     [RegistryDelete (ms_recordingId st), ProbeDuration (ms_outputPath st)]"

text \<open>\<^verbatim>\<open>stopMixedRecording({ recording_id })\<close> on the registry \<^verbatim>\<open>this.active\<close>:
  an unknown id is answered with \<^verbatim>\<open>Not found\<close>.\<close>

definition stopMixedRecording ::
  "(string \<rightharpoonup> mixState) \<Rightarrow> string \<Rightarrow> int \<Rightarrow> muxerFate
     \<Rightarrow> error + (string \<rightharpoonup> mixState) \<times> event list" where
  "stopMixedRecording active recording_id now fate =
     (case active recording_id of
        None \<Rightarrow> Inl RecordingNotFound
      | Some st \<Rightarrow> Inr (active(recording_id := None), stopMixedTrace st now fate))"

section \<open>Per-participant recorder\<close>

record perItem =
  it_peerId :: string
  it_producerId :: string
  it_kind :: kind
  it_transport :: string
  it_consumer :: string
  it_sdpPath :: string
  it_outFile :: string
  it_ff :: string

record perState =
  ps_id :: string
  ps_roomId :: string
  ps_baseDir :: string
  ps_startedAt :: int
  ps_items :: "perItem list"

definition perFfArgs :: "kind \<Rightarrow> string \<Rightarrow> string \<Rightarrow> string list" where
  "perFfArgs k sdpPath outFile =
     [''-nostdin'', ''-y'', ''-loglevel'', ''info'', ''-protocol_whitelist'', ''file,udp,rtp'',
      ''-fflags'', ''+genpts'', ''-analyzeduration'', ''10000000'', ''-probesize'', ''10000000'',
      ''-f'', ''sdp'', ''-i'', sdpPath] @
     (if k = Video then [''-map'', ''0:v:0''] else [''-map'', ''0:a:0'']) @
     (if k = Video then [''-c:v'', ''libvpx'', ''-b:v'', ''2000k'', ''-crf'', ''32'', ''-r'', ''30'',
                         ''-pix_fmt'', ''yuv420p'']
      else [''-c:a'', ''libopus'', ''-b:a'', ''128k'']) @
     [outFile]"

text \<open>
  In the per-participant recorder too the output directory is given in the normal form
  of \<^verbatim>\<open>path.join\<close>, and the room, peer and producer ids hold no slash.
\<close>

text \<open>
  The loop of \<^verbatim>\<open>start(roomId)\<close>.  The result \<^verbatim>\<open>ci\<close> of \<^verbatim>\<open>_codecInfo\<close> is
  not tested: after the port is allocated and the transport connected,
  \<^verbatim>\<open>ci.payloadType\<close> is read, which throws a \<^verbatim>\<open>TypeError\<close> when \<^verbatim>\<open>ci\<close> is
  \<^verbatim>\<open>null\<close>.  An exception leaves the loop and the function.
\<close>

fun startItems ::
  "sfu \<Rightarrow> string \<Rightarrow> producer list \<Rightarrow> perItem list \<times> event list
     \<Rightarrow> error + perItem list \<times> event list" where
  "startItems s baseDir [] acc = Inr acc"
| "startItems s baseDir (p # ps) acc =
     (if \<not> canConsume s (p_id p) then startItems s baseDir ps acc
      else
        (let ci = codecInfo (p_kind p) (consumerRtp s (p_id p)) in
         case freePort s (p_id p) of
           Inl e \<Rightarrow> Inl e
         | Inr port \<Rightarrow>
             (case ci of
                None \<Rightarrow> Inl TypeErrorNull
              | Some c \<Rightarrow>
                  (let stem = baseDir @ ''/'' @ kind_str (p_kind p) @ ''-'' @ p_peer p @ ''-'' @
                              p_id p;
                       sdpPath = stem @ ''.sdp'';
                       outFile = stem @ ''.webm''
                   in startItems s baseDir ps
                        (fst acc @
                           [\<lparr>it_peerId = p_peer p, it_producerId = p_id p, it_kind = p_kind p,
                             it_transport = p_id p, it_consumer = p_id p, it_sdpPath = sdpPath,
                             it_outFile = outFile, it_ff = p_id p\<rparr>],
                         snd acc @
                           [CreatePlainTransport (p_id p), Consume (p_id p) (p_id p) True,
                            TransportConnect (p_id p) port (port + 1),
                            WriteFile sdpPath
                              (sdpFor (p_kind p) (ci_payloadType c) (ci_codecName c)
                                 (ci_clockRate c) port (ci_channels c) (ci_fmtp c)),
                            Spawn (p_id p) (perFfArgs (p_kind p) sdpPath outFile),
                            ConsumerResume (p_id p)] @
                           (if p_kind p = Video then [RequestKeyFrame (p_id p)] else []))))))"

definition per_start ::
  "bool \<Rightarrow> producer list \<Rightarrow> sfu \<Rightarrow> string \<Rightarrow> nat \<Rightarrow> int \<Rightarrow> string
     \<Rightarrow> error + perState \<times> event list" where
  "per_start routerReady producers s roomId now startedNow outDir =
     (if \<not> routerReady then Inl RouterNotInitialized
      else if length producers = 0 then Inl NoProducers
      else
        (let recordingId = ''rec-per-'' @ nat_str now;
             baseDir = outDir @ ''/per/'' @ roomId @ ''/'' @ recordingId
         in case startItems s baseDir producers ([], []) of
              Inl e \<Rightarrow> Inl e
            | Inr (items, tr) \<Rightarrow>
                Inr (\<lparr>ps_id = recordingId, ps_roomId = roomId, ps_baseDir = baseDir,
                      ps_startedAt = startedNow, ps_items = items\<rparr>,
                     tr @ [RegistrySet recordingId])))"

text \<open>\<^verbatim>\<open>stop(recordingId)\<close>: each item's muxer is sent \<^verbatim>\<open>SIGINT\<close>, then its
  consumer and its transport are closed; the metadata file is written and the entry
  deleted.\<close>

definition itemStop :: "perItem \<Rightarrow> event list" where
  "itemStop it = [Kill (it_ff it) ''SIGINT'', ConsumerClose (it_consumer it),
                  TransportClose (it_transport it)]"

definition per_stopTrace :: "perState \<Rightarrow> event list" where
  "per_stopTrace st =
     concat (map itemStop (ps_items st)) @
     [WriteMetadata (ps_baseDir st @ ''/metadata.json'') (map it_outFile (ps_items st)),
      RegistryDelete (ps_id st)]"

definition per_stop ::
  "(string \<rightharpoonup> perState) \<Rightarrow> string \<Rightarrow> error + (string \<rightharpoonup> perState) \<times> event list" where
  "per_stop active recordingId =
     (case active recordingId of
        None \<Rightarrow> Inl RecordingNotFound
      | Some st \<Rightarrow> Inr (active(recordingId := None), per_stopTrace st))"

section \<open>Port allocation\<close>

text \<open>
  \<^verbatim>\<open>_getFreePort()\<close> of the mixed and of the per-participant recorder: up to 200
  candidates \<^verbatim>\<open>base + Math.floor(Math.random() * 40000)\<close>, each probed by binding a
  UDP socket on 127.0.0.1; the first candidate whose probe succeeds is returned.  The
  environment is given by \<open>rnd i\<close>, the value of
  \<^verbatim>\<open>Math.floor(Math.random() * 40000)\<close> at attempt \<open>i\<close>, and \<open>isPortFree i p\<close>,
  the outcome of probing port \<open>p\<close> at attempt \<open>i\<close>.  The base is 15000 in the mixed
  recorder and 20000 in the per-participant recorder.
\<close>

function getFreePort_loop ::
  "nat \<Rightarrow> (nat \<Rightarrow> nat \<Rightarrow> bool) \<Rightarrow> (nat \<Rightarrow> nat) \<Rightarrow> nat \<Rightarrow> error + nat" where
  "getFreePort_loop base isPortFree rnd i =
     (if i < 200 then
        (let candidate = base + rnd i
         in if isPortFree i candidate then Inr candidate
            else getFreePort_loop base isPortFree rnd (i + 1))
      else Inl NoFreeUdpPort)"
  by pat_completeness auto
termination
  by (relation "measure (\<lambda>(base, isPortFree, rnd, i). 200 - i)") auto

declare getFreePort_loop.simps [simp del]

definition mixed_getFreePort :: "(nat \<Rightarrow> nat \<Rightarrow> bool) \<Rightarrow> (nat \<Rightarrow> nat) \<Rightarrow> error + nat" where
  "mixed_getFreePort isPortFree rnd = getFreePort_loop 15000 isPortFree rnd 0"

definition per_getFreePort :: "(nat \<Rightarrow> nat \<Rightarrow> bool) \<Rightarrow> (nat \<Rightarrow> nat) \<Rightarrow> error + nat" where
  "per_getFreePort isPortFree rnd = getFreePort_loop 20000 isPortFree rnd 0"

section \<open>Single-file recorder\<close>

text \<open>
  \<^verbatim>\<open>startRecording\<close> of \<^verbatim>\<open>recording-manager.js\<close> takes the codecs from the
  producers: \<^verbatim>\<open>videoCodec\<close> is the \<^verbatim>\<open>rtpParameters\<close> of the first video producer
  that has any, likewise \<^verbatim>\<open>audioCodec\<close>.
\<close>

fun pickCodecs ::
  "producer list \<Rightarrow> rtpParameters option \<times> rtpParameters option
     \<Rightarrow> rtpParameters option \<times> rtpParameters option" where
  "pickCodecs [] acc = acc"
| "pickCodecs (p # ps) (videoCodec, audioCodec) =
     pickCodecs ps
       (if p_kind p = Video \<and> videoCodec = None then p_rtp p else videoCodec,
        if p_kind p = Audio \<and> audioCodec = None then p_rtp p else audioCodec)"

text \<open>The \<^verbatim>\<open>FFmpeg\<close> class: the constructor builds the SDP with
  \<^verbatim>\<open>createSdpText\<close>, spawns the muxer and pipes the SDP to its standard input.\<close>

definition ffmpegCommandArgs ::
  "rtpParameters option \<Rightarrow> rtpParameters option \<Rightarrow> string \<Rightarrow> nat \<Rightarrow> string list" where
  "ffmpegCommandArgs videoCodec audioCodec recordDir now =
     [''-loglevel'', ''debug'', ''-protocol_whitelist'', ''pipe,udp,rtp'', ''-fflags'',
      ''+genpts'', ''-f'', ''sdp'', ''-i'', ''pipe:0''] @
     (if videoCodec \<noteq> None then [''-map'', ''0:v:0'', ''-c:v'', ''copy''] else []) @
     (if audioCodec \<noteq> None then [''-map'', ''0:a:0'', ''-c:a'', ''copy''] else []) @
     [''-flags'', ''+global_header'', recordDir @ ''/recording-'' @ nat_str now @ ''.mp4'']"

definition newFFmpeg ::
  "string \<Rightarrow> rtpParameters option \<Rightarrow> rtpParameters option \<Rightarrow> nat \<Rightarrow> nat option \<Rightarrow> string \<Rightarrow> nat
     \<Rightarrow> error + event list" where
  "newFFmpeg h videoCodec audioCodec remoteRtpPort remoteAudioRtpPort recordDir now =
     (case createSdpText videoCodec audioCodec remoteRtpPort remoteAudioRtpPort of
        Inl e \<Rightarrow> Inl e
      | Inr sdpString \<Rightarrow>
          Inr [Spawn h (ffmpegCommandArgs videoCodec audioCodec recordDir now),
               StdinPipe h sdpString])"

text \<open>
  \<^verbatim>\<open>connectProducersToRecording(recordingId)\<close>, current version: a producer the
  router cannot consume, or whose kind has no transport, is skipped; otherwise a
  consumer is created paused on the transport of its kind and resumed at once.
\<close>

definition connectProducersToRecording ::
  "sfu \<Rightarrow> bool \<Rightarrow> bool \<Rightarrow> producer list \<Rightarrow> event list" where
  "connectProducersToRecording s hasVideoTransport hasAudioTransport producers =
     concat (map (\<lambda>p.
       if \<not> canConsume s (p_id p) then []
       else if \<not> (if p_kind p = Video then hasVideoTransport else hasAudioTransport) then []
       else [Consume (kind_str (p_kind p)) (p_id p) True, ConsumerResume (p_id p)]) producers)"

definition startRecording ::
  "bool \<Rightarrow> bool \<Rightarrow> producer list \<Rightarrow> sfu \<Rightarrow> error + nat \<Rightarrow> nat \<Rightarrow> string
     \<Rightarrow> error + string \<times> event list" where
  "startRecording roomReady routerReady producers s freeBasePort now recordDir =
     (if \<not> roomReady then Inl RoomNotInitialized
      else if \<not> routerReady then Inl RouterNotInitialized
      else
        (let recordingId = ''rec-'' @ nat_str now;
             (videoCodec, audioCodec) = pickCodecs producers (None, None)
         in if videoCodec = None \<and> audioCodec = None then Inl NoProducers
            else
              (case freeBasePort of
                 Inl e \<Rightarrow> Inl e
               | Inr basePort \<Rightarrow>
                   (let ffmpegVideoPort = basePort;
                        ffmpegAudioPort = basePort + 2
                    in case newFFmpeg recordingId videoCodec audioCodec ffmpegVideoPort
                              (if audioCodec \<noteq> None then Some ffmpegAudioPort else None)
                              recordDir now of
                         Inl e \<Rightarrow> Inl e
                       | Inr spawned \<Rightarrow>
                           Inr (recordingId,
                                spawned @
                                (if videoCodec \<noteq> None then
                                   [CreatePlainTransport ''video'',
                                    TransportConnect ''video'' ffmpegVideoPort (ffmpegVideoPort + 1)]
                                 else []) @
                                (if audioCodec \<noteq> None then
                                   [CreatePlainTransport ''audio'',
                                    TransportConnect ''audio'' ffmpegAudioPort (ffmpegAudioPort + 1)]
                                 else []) @
                                [RegistrySet recordingId] @
                                connectProducersToRecording s (videoCodec \<noteq> None)
                                  (audioCodec \<noteq> None) producers)))))"

text \<open>
  \<^verbatim>\<open>connectProducersToRecording(recordingId)\<close>, earlier version kept in the same
  file: a producer without a codec is skipped; otherwise a consumer is created on the
  single transport with \<^verbatim>\<open>paused: false\<close> and then resumed.
\<close>

definition connectProducersToRecording_legacy :: "producer list \<Rightarrow> event list" where
  "connectProducersToRecording_legacy producers =
     concat (map (\<lambda>p.
       if firstCodec (p_rtp p) = None then []
       else [Consume ''transport'' (p_id p) False, ConsumerResume (p_id p)]) producers)"

section \<open>Shapes and observations used in the statements\<close>

text \<open>
  The shape of one media section, in the words of the SDP contract: the media line, the
  rtpmap line (with the channel count for audio, an undefined or zero count giving 2),
  the rtcp line on the next port when \<open>withRtcp\<close> holds, the recvonly line, and the
  fmtp line exactly when the format parameters are a non-empty string.
\<close>

definition mediaSectionShape ::
  "bool \<Rightarrow> kind \<Rightarrow> nat \<Rightarrow> nat \<Rightarrow> string option \<Rightarrow> nat \<Rightarrow> nat option \<Rightarrow> string \<Rightarrow> string list" where
  "mediaSectionShape withRtcp k port pt name clockRt chans fmtp =
     [mLine k port pt,
      ''a=rtpmap:'' @ nat_str pt @ '' '' @ tmpl name @ ''/'' @ nat_str clockRt @
        (case k of Video \<Rightarrow> [] | Audio \<Rightarrow> ''/'' @ nat_str (channels_or_2 chans))] @
     (if withRtcp then [''a=rtcp:'' @ nat_str (port + 1) @ '' IN IP4 127.0.0.1''] else []) @
     [''a=recvonly''] @
     (if fmtp = [] then [] else [fmtpLine pt fmtp])"

definition sdpText :: "string list \<Rightarrow> string" where
  "sdpText ls = join [CHR 0x0A] ls @ [CHR 0x0A]"

definition isMediaLine :: "string \<Rightarrow> bool" where
  "isMediaLine l = prefix ''m='' l"

text \<open>Observations on a trace: the argument vectors of the spawned muxers, the SDP
  texts written to files or piped to a muxer, and the consumers created unpaused.\<close>

fun spawnArgs :: "event list \<Rightarrow> string list list" where
  "spawnArgs [] = []"
| "spawnArgs (Spawn h args # es) = args # spawnArgs es"
| "spawnArgs (e # es) = spawnArgs es"

fun sdpTexts :: "event list \<Rightarrow> string list" where
  "sdpTexts [] = []"
| "sdpTexts (WriteFile path text # es) = text # sdpTexts es"
| "sdpTexts (StdinPipe h text # es) = text # sdpTexts es"
| "sdpTexts (e # es) = sdpTexts es"

fun unpausedConsumers :: "event list \<Rightarrow> string list" where
  "unpausedConsumers [] = []"
| "unpausedConsumers (Consume t pid paused # es) =
     (if paused then unpausedConsumers es else pid # unpausedConsumers es)"
| "unpausedConsumers (e # es) = unpausedConsumers es"

text \<open>A small room used for concrete runs: an Opus audio producer and a VP8 video
  producer whose consumer-side payload types (100 and 101) differ from the producer-side
  ones (111 and 96), on an SFU that can consume both and finds port 15000 for any
  producer.\<close>

definition opusProducerSide :: codec where
  "opusProducerSide = \<lparr>mimeType = ''audio/opus'', payloadType = 111, clockRate = 48000,
                        channels = Some 2, parameters = None\<rparr>"

definition opusConsumerSide :: codec where
  "opusConsumerSide = \<lparr>mimeType = ''audio/opus'', payloadType = 100, clockRate = 48000,
                        channels = Some 2, parameters = None\<rparr>"

definition vp8ProducerSide :: codec where
  "vp8ProducerSide = \<lparr>mimeType = ''video/VP8'', payloadType = 96, clockRate = 90000,
                       channels = None, parameters = None\<rparr>"

definition vp8ConsumerSide :: codec where
  "vp8ConsumerSide = \<lparr>mimeType = ''video/VP8'', payloadType = 101, clockRate = 90000,
                       channels = None, parameters = None\<rparr>"

definition micProducer :: producer where
  "micProducer = \<lparr>p_id = ''a1'', p_peer = ''ann'', p_kind = Audio,
                   p_rtp = Some \<lparr>codecs = Some [opusProducerSide]\<rparr>\<rparr>"

definition camProducer :: producer where
  "camProducer = \<lparr>p_id = ''v1'', p_peer = ''ann'', p_kind = Video,
                   p_rtp = Some \<lparr>codecs = Some [vp8ProducerSide]\<rparr>\<rparr>"

definition roomSfu :: sfu where
  "roomSfu = \<lparr>canConsume = (\<lambda>pid. True),
               consumerRtp = (\<lambda>pid. if pid = ''v1'' then Some \<lparr>codecs = Some [vp8ConsumerSide]\<rparr>
                                      else Some \<lparr>codecs = Some [opusConsumerSide]\<rparr>),
               freePort = (\<lambda>pid. Inr 15000)\<rparr>"

text \<open>The same SFU, except that the consumer of the video producer is given audio
  codecs only.\<close>

definition oddSfu :: sfu where
  "oddSfu = \<lparr>canConsume = (\<lambda>pid. True),
              consumerRtp = (\<lambda>pid. Some \<lparr>codecs = Some [opusConsumerSide]\<rparr>),
              freePort = (\<lambda>pid. Inr 15000)\<rparr>"

text \<open>Two port environments: one where only port 15000 (20000) can be bound, with the
  random source always giving 0, and one where no port can be bound.\<close>

definition only15000 :: "nat \<Rightarrow> nat \<Rightarrow> bool" where
  "only15000 i p = (p = 15000)"

definition only20000 :: "nat \<Rightarrow> nat \<Rightarrow> bool" where
  "only20000 i p = (p = 20000)"

definition noPortFree :: "nat \<Rightarrow> nat \<Rightarrow> bool" where
  "noPortFree i p = False"

definition rndZero :: "nat \<Rightarrow> nat" where
  "rndZero i = 0"

text \<open>The consumers resumed before their muxer was spawned: \<open>muxerOf\<close> gives the
  muxer that reads a consumer's stream, \<open>spawned\<close> the muxers spawned so far.\<close>

fun earlyResumes :: "(string \<Rightarrow> string) \<Rightarrow> string list \<Rightarrow> event list \<Rightarrow> string list" where
  "earlyResumes muxerOf spawned [] = []"
| "earlyResumes muxerOf spawned (Spawn h args # es) = earlyResumes muxerOf (h # spawned) es"
| "earlyResumes muxerOf spawned (ConsumerResume c # es) =
     (if muxerOf c \<in> set spawned then earlyResumes muxerOf spawned es
      else c # earlyResumes muxerOf spawned es)"
| "earlyResumes muxerOf spawned (e # es) = earlyResumes muxerOf spawned es"

text \<open>Events that neither spawn a muxer nor resume a consumer.\<close>

fun quiet :: "event \<Rightarrow> bool" where
  "quiet (Spawn h a) = False"
| "quiet (ConsumerResume c) = False"
| "quiet e = True"

text \<open>The codec that the recorders pick from a consumer's RTP parameters, and the SDP
  that the mixed and the per-participant recorder derive from it for a port.\<close>

definition pickedCodec :: "kind \<Rightarrow> rtpParameters option \<Rightarrow> codec option" where
  "pickedCodec k rtp =
     (case rtp of
        None \<Rightarrow> None
      | Some r \<Rightarrow>
          (case codecs r of
             None \<Rightarrow> None
           | Some cs \<Rightarrow> find (\<lambda>x. str_includes (toLowerCase (mimeType x)) (kind_str k)) cs))"

definition mixedSdpOf :: "kind \<Rightarrow> codec \<Rightarrow> nat \<Rightarrow> string" where
  "mixedSdpOf k c port =
     sdpText (sdpPreamble ''FFmpegInput'' @
       mediaSectionShape True k port (payloadType c) (second_segment (mimeType c)) (clockRate c)
         (channels c) (ci_fmtp (codecInfoOf k c)))"

definition perSdpOf :: "kind \<Rightarrow> codec \<Rightarrow> nat \<Rightarrow> string" where
  "perSdpOf k c port =
     sdpText (sdpPreamble ''FFmpegInput'' @
       mediaSectionShape False k port (payloadType c) (second_segment (mimeType c)) (clockRate c)
         (channels c) (ci_fmtp (codecInfoOf k c)))"

text \<open>Observations on a stop trace: whether an event closes a consumer or a
  transport, and the part of a trace that precedes the first occurrence of an event
  (the whole trace when the event does not occur).\<close>

fun isClose :: "event \<Rightarrow> bool" where
  "isClose (ConsumerClose c) = True"
| "isClose (TransportClose t) = True"
| "isClose e = False"

definition beforeEvent :: "event \<Rightarrow> event list \<Rightarrow> event list" where
  "beforeEvent e tr = takeWhile (\<lambda>x. x \<noteq> e) tr"

text \<open>A mixed recording of the small room, as the registry holds it, and a
  per-participant recording with two items.\<close>

definition mixedDemo :: mixState where
  "mixedDemo = \<lparr>ms_recordingId = ''rec-mix-1'', ms_fileName = ''mixed-rec-mix-1.mp4'',
                 ms_outputPath = ''files/mixed-rec-mix-1.mp4'',
                 ms_sdpDir = ''files/sdp/rec-mix-1'', ms_transports = [''a1''],
                 ms_consumers = [(''a1'', Audio)], ms_ff = ''rec-mix-1'',
                 ms_keyframeIntervals = [], ms_startedAt = 1000000\<rparr>"

definition exitedEarly :: muxerFate where
  "exitedEarly = \<lparr>exits300 = True, stdinUsable = True, exits30000 = True, exits5000 = True\<rparr>"

definition quitsOnRequest :: muxerFate where
  "quitsOnRequest = \<lparr>exits300 = False, stdinUsable = True, exits30000 = True, exits5000 = True\<rparr>"

definition perItemDemo :: "string \<Rightarrow> kind \<Rightarrow> perItem" where
  "perItemDemo pid k =
     \<lparr>it_peerId = ''ann'', it_producerId = pid, it_kind = k, it_transport = pid,
      it_consumer = pid, it_sdpPath = pid @ ''.sdp'', it_outFile = pid @ ''.webm'', it_ff = pid\<rparr>"

definition perDemo :: perState where
  "perDemo = \<lparr>ps_id = ''rec-per-1'', ps_roomId = ''room'', ps_baseDir = ''files/per/room/rec-per-1'',
               ps_startedAt = 1000000,
               ps_items = [perItemDemo ''a1'' Audio, perItemDemo ''v1'' Video]\<rparr>"

section \<open>Verified properties\<close>

subsection \<open>Evaluation helpers\<close>

lemma upt_small:
  "[0..<4] = [0, 1, 2, 3]" "[0..<3] = [0, 1, 2]" "[0..<2] = [0, 1]" "[0..<1] = [0]"
  by (simp_all add: upt_rec)

lemma nat_str_vals:
  "nat_str 0 = ''0''" "nat_str 1 = ''1''" "nat_str (Suc 0) = ''1''" "nat_str 2 = ''2''" "nat_str 3 = ''3''"
  "nat_str 96 = ''96''" "nat_str 100 = ''100''" "nat_str 101 = ''101''" "nat_str 111 = ''111''"
  "nat_str 5004 = ''5004''" "nat_str 5005 = ''5005''"
  "nat_str 15000 = ''15000''" "nat_str 15001 = ''15001''" "nat_str 15002 = ''15002''"
  "nat_str 48000 = ''48000''" "nat_str 90000 = ''90000''"
  "nat_str 1700000000000 = ''1700000000000''"
  by (simp_all add: nat_str.simps digit_char_def)

lemma nat_str_more:
  "nat_str 10000 = ''10000''" "nat_str 10002 = ''10002''"
  by (simp_all add: nat_str.simps digit_char_def)

lemma nat_str_layout:
  "nat_str 640 = ''640''" "nat_str 360 = ''360''" "nat_str 720 = ''720''" "nat_str 4 = ''4''"
  by (simp_all add: nat_str.simps digit_char_def)

lemma lower_vals:
  "toLowerCase ''audio/opus'' = ''audio/opus''" "toLowerCase ''video/VP8'' = ''video/vp8''"
  by code_simp+

lemma incl_vals:
  "str_includes ''audio/opus'' ''audio''" "\<not> str_includes ''audio/opus'' ''video''"
  "str_includes ''video/vp8'' ''video''" "\<not> str_includes ''video/vp8'' ''audio''"
  by simp_all

lemma seg_vals:
  "second_segment ''audio/opus'' = Some ''opus''" "second_segment ''video/VP8'' = Some ''VP8''"
  by (simp_all add: second_segment_def)

subsection \<open>Grid layout\<close>

text \<open>
  Claim C4.  For a frame of \<open>W\<close> by \<open>H\<close> pixels the layout computed for one video
  input is one row and one column with a cell of \<open>W\<close> by \<open>H\<close>; for two inputs one
  row and two columns with a cell of \<open>W div 2\<close> by \<open>H\<close>; for three and for four
  inputs two rows and two columns with a cell of \<open>W div 2\<close> by \<open>H div 2\<close>.  The
  halves are the integer halves that \<^verbatim>\<open>Math.floor\<close> yields.
\<close>

theorem computeLayout_table:
  "computeLayout 1 W H = \<lparr>rows = 1, cols = 1, cellW = W, cellH = H\<rparr> \<and>
   computeLayout 2 W H = \<lparr>rows = 1, cols = 2, cellW = W div 2, cellH = H\<rparr> \<and>
   computeLayout 3 W H = \<lparr>rows = 2, cols = 2, cellW = W div 2, cellH = H div 2\<rparr> \<and>
   computeLayout 4 W H = \<lparr>rows = 2, cols = 2, cellW = W div 2, cellH = H div 2\<rparr>"
  by (simp add: computeLayout_def)

text \<open>
  Claim C5.  For one to four video inputs the filter graph that
  \<^verbatim>\<open>_buildFilterComplex\<close> returns is, joined by semicolons: for each input \<open>i\<close>, in
  order, the chain that takes stream \<open>[i:v]\<close>, scales and pads it to the cell and labels
  it \<open>[vi]\<close>; then the grid-stack operator, which takes the labels \<open>[v0]\<close>, \<open>[v1]\<close>, ...
  in input order, with a layout that has one entry per input, in the same order, the
  entry of input \<open>i\<close> being the corner \<open>(c * Wc)_(r * Hc)\<close> with \<open>r = i div cols\<close> and
  \<open>c = i mod cols\<close>, which is row-major filling, and which asks for black fill; then
  the timestamp reset; then the audio part.  The grid has at least as many cells as
  inputs; with three inputs it has four cells and the layout three entries, so the
  fourth cell is left to the black fill.  The rows, columns and cell size are written
  out; the same holds of the layout list and of the operator as parts of the graph.
\<close>

theorem filter_graph_row_major:
  assumes "V \<in> {1, 2, 3, 4}"
  shows "(let nrows = (if V \<le> 2 then 1 else 2 :: nat);
              ncols = (if V = 1 then 1 else 2 :: nat);
              Wc = (if V = 1 then W else W div 2);
              Hc = (if V \<le> 2 then H else H div 2)
          in buildFilterComplex V A W H =
               join '';''
                 (map (\<lambda>i. ''['' @ nat_str i @ '':v]scale='' @ nat_str Wc @ '':'' @ nat_str Hc @
                            '':force_original_aspect_ratio=decrease:eval=frame,pad='' @
                            nat_str Wc @ '':'' @ nat_str Hc @
                            '':(ow-iw)/2:(oh-ih)/2:color=black,fps=25,setsar=1,format=yuv420p[v'' @
                            nat_str i @ '']'')
                      [0..<V] @
                  [concat (map (\<lambda>i. ''[v'' @ nat_str i @ '']'') [0..<V]) @
                   ''xstack=inputs='' @ nat_str V @ '':layout='' @
                   join ''|'' (map (\<lambda>i. nat_str ((i mod ncols) * Wc) @ ''_'' @
                                        nat_str ((i div ncols) * Hc)) [0..<V]) @
                   '':fill=black:shortest=0[vtmp]'',
                   ''[vtmp]setpts=PTS-STARTPTS[vout]''] @
                  audioParts V A)
             \<and> V \<le> nrows * ncols
             \<and> (V = 3 \<longrightarrow> nrows * ncols = 4))
         \<and> layoutParts V W H =
           map (\<lambda>i. nat_str ((i mod cols (computeLayout V W H)) * cellW (computeLayout V W H)) @
                     ''_'' @
                     nat_str ((i div cols (computeLayout V W H)) * cellH (computeLayout V W H)))
               [0..<V]
         \<and> filterParts V A W H ! V =
             join [] (videoLabels V) @ ''xstack=inputs='' @ nat_str V @ '':layout='' @
             join ''|'' (layoutParts V W H) @ '':fill=black:shortest=0[vtmp]''
         \<and> (V = 3 \<longrightarrow> rows (computeLayout V W H) * cols (computeLayout V W H) = 4 \<and>
                      length (layoutParts V W H) = 3)"
proof -
  have a: "layoutParts V W H =
           map (\<lambda>i. nat_str ((i mod cols (computeLayout V W H)) * cellW (computeLayout V W H)) @
                     ''_'' @
                     nat_str ((i div cols (computeLayout V W H)) * cellH (computeLayout V W H)))
               [0..<V]"
    using assms by (auto simp: layoutParts_def layoutEntry_def computeLayout_def upt_small Let_def)
  have b: "filterParts V A W H ! V = xstackPart V W H"
    by (simp add: filterParts_def nth_append)
  have c: "V = 3 \<longrightarrow> rows (computeLayout V W H) * cols (computeLayout V W H) = 4 \<and>
                      length (layoutParts V W H) = 3"
  proof
    assume "V = 3"
    with a show "rows (computeLayout V W H) * cols (computeLayout V W H) = 4 \<and>
                 length (layoutParts V W H) = 3"
      by (simp add: computeLayout_def)
  qed
  have g: "(let nrows = (if V \<le> 2 then 1 else 2 :: nat);
              ncols = (if V = 1 then 1 else 2 :: nat);
              Wc = (if V = 1 then W else W div 2);
              Hc = (if V \<le> 2 then H else H div 2)
          in buildFilterComplex V A W H =
               join '';''
                 (map (\<lambda>i. ''['' @ nat_str i @ '':v]scale='' @ nat_str Wc @ '':'' @ nat_str Hc @
                            '':force_original_aspect_ratio=decrease:eval=frame,pad='' @
                            nat_str Wc @ '':'' @ nat_str Hc @
                            '':(ow-iw)/2:(oh-ih)/2:color=black,fps=25,setsar=1,format=yuv420p[v'' @
                            nat_str i @ '']'')
                      [0..<V] @
                  [concat (map (\<lambda>i. ''[v'' @ nat_str i @ '']'') [0..<V]) @
                   ''xstack=inputs='' @ nat_str V @ '':layout='' @
                   join ''|'' (map (\<lambda>i. nat_str ((i mod ncols) * Wc) @ ''_'' @
                                        nat_str ((i div ncols) * Hc)) [0..<V]) @
                   '':fill=black:shortest=0[vtmp]'',
                   ''[vtmp]setpts=PTS-STARTPTS[vout]''] @
                  audioParts V A)
             \<and> V \<le> nrows * ncols
             \<and> (V = 3 \<longrightarrow> nrows * ncols = 4))"
    using assms
    by (auto simp: buildFilterComplex_def filterParts_def xstackPart_def videoChain_def
          videoLabels_def layoutParts_def layoutEntry_def computeLayout_def upt_small Let_def)
  show ?thesis using a b c g by (simp add: xstackPart_def)
qed

theorem filter_graph_row_major_witness:
  "buildFilterComplex 3 2 1280 720 =
     ''[0:v]scale=640:360:force_original_aspect_ratio=decrease:eval=frame,pad=640:360:(ow-iw)/2:(oh-ih)/2:color=black,fps=25,setsar=1,format=yuv420p[v0];[1:v]scale=640:360:force_original_aspect_ratio=decrease:eval=frame,pad=640:360:(ow-iw)/2:(oh-ih)/2:color=black,fps=25,setsar=1,format=yuv420p[v1];[2:v]scale=640:360:force_original_aspect_ratio=decrease:eval=frame,pad=640:360:(ow-iw)/2:(oh-ih)/2:color=black,fps=25,setsar=1,format=yuv420p[v2];[v0][v1][v2]xstack=inputs=3:layout=0_0|640_0|0_360:fill=black:shortest=0[vtmp];[vtmp]setpts=PTS-STARTPTS[vout];[3:a]aresample=async=1:min_hard_comp=0.100:first_pts=0[a0];[4:a]aresample=async=1:min_hard_comp=0.100:first_pts=0[a1];[a0][a1]amix=inputs=2:normalize=0:duration=longest:dropout_transition=2[amix];[amix]asetpts=PTS-STARTPTS[aout]''
   \<and> buildFilterComplex 2 0 1280 720 =
     ''[0:v]scale=640:720:force_original_aspect_ratio=decrease:eval=frame,pad=640:720:(ow-iw)/2:(oh-ih)/2:color=black,fps=25,setsar=1,format=yuv420p[v0];[1:v]scale=640:720:force_original_aspect_ratio=decrease:eval=frame,pad=640:720:(ow-iw)/2:(oh-ih)/2:color=black,fps=25,setsar=1,format=yuv420p[v1];[v0][v1]xstack=inputs=2:layout=0_0|640_0:fill=black:shortest=0[vtmp];[vtmp]setpts=PTS-STARTPTS[vout]''
   \<and> layoutParts 3 1280 720 = [''0_0'', ''640_0'', ''0_360'']
   \<and> layoutParts 4 1280 720 = [''0_0'', ''640_0'', ''0_360'', ''640_360'']
   \<and> filterParts 3 0 1280 720 ! 3 =
     ''[v0][v1][v2]xstack=inputs=3:layout=0_0|640_0|0_360:fill=black:shortest=0[vtmp]''"
proof -
  have v: "(3::nat) \<in> {1, 2, 3, 4}" "(2::nat) \<in> {1, 2, 3, 4}" "(4::nat) \<in> {1, 2, 3, 4}"
    by simp_all
  have L: "computeLayout 3 1280 720 = \<lparr>rows = 2, cols = 2, cellW = 640, cellH = 360\<rparr>"
    "computeLayout 4 1280 720 = \<lparr>rows = 2, cols = 2, cellW = 640, cellH = 360\<rparr>"
    by (simp_all add: computeLayout_def)
  have n: "nat_str (Suc (Suc 0)) = ''2''"
    by (simp add: nat_str.simps digit_char_def)
  from filter_graph_row_major [OF v(1), where A = 2 and W = 1280 and H = 720]
    filter_graph_row_major [OF v(2), where A = 0 and W = 1280 and H = 720]
    filter_graph_row_major [OF v(3), where A = 0 and W = 1280 and H = 720]
    filter_graph_row_major [OF v(1), where A = 0 and W = 1280 and H = 720]
  show ?thesis
    by (simp add: L upt_small nat_str_vals nat_str_layout n videoLabels_def audioParts_def Let_def)
qed

subsection \<open>The filter graph without video\<close>

text \<open>
  Claim C9, evaluated on the code.  A mixed recording is started in a room whose only
  producer is an Opus audio producer.  The start succeeds and spawns the muxer, but the
  argument vector maps the video label \<open>[vout]\<close> as well as the audio label, and the
  filter graph holds a grid-stack chain over zero inputs with an empty layout: the video
  part of \<^verbatim>\<open>_buildFilterComplex\<close> and the \<^verbatim>\<open>-map [vout]\<close> argument are not
  guarded by the video count, unlike the audio part.
\<close>

theorem audio_only_start_maps_vout:
  "(case startMixedRecording True [micProducer] roomSfu 1700000000000 1700000000050 ''files'' 1280 720 of
      Inl e \<Rightarrow> []
    | Inr (st, tr) \<Rightarrow> spawnArgs tr) =
   [[''-y'', ''-loglevel'', ''info'', ''-fflags'', ''+genpts+nobuffer'', ''-flags'',
      ''low_delay'', ''-max_delay'', ''0'', ''-analyzeduration'', ''1000000'',
      ''-probesize'', ''1000000'',
      ''-thread_queue_size'', ''1024'', ''-protocol_whitelist'',
      ''file,crypto,data,udp,rtp'', ''-f'', ''sdp'', ''-i'',
      ''files/sdp/rec-mix-1700000000000/a-a1.sdp'',
      ''-filter_complex'',
      ''xstack=inputs=0:layout=:fill=black:shortest=0[vtmp];[vtmp]setpts=PTS-STARTPTS[vout];[0:a]aresample=async=1:min_hard_comp=0.100:first_pts=0[a0];[a0]asetpts=PTS-STARTPTS[aout]'',
      ''-map'', ''[vout]'', ''-map'', ''[aout]'',
      ''-use_wallclock_as_timestamps'', ''1'', ''-muxpreload'', ''0'', ''-muxdelay'', ''0'',
      ''-c:v'', ''libx264'', ''-preset'', ''ultrafast'', ''-tune'', ''zerolatency'',
      ''-profile:v'', ''baseline'', ''-pix_fmt'', ''yuv420p'', ''-g'', ''50'',
      ''-keyint_min'', ''50'', ''-c:a'', ''aac'', ''-b:a'', ''128k'', ''-movflags'',
      ''+faststart'', ''-map_metadata'', ''-1'', ''-map_chapters'', ''-1'',
      ''files/mixed-rec-mix-1700000000000.mp4'']]"
  by (simp add: startMixedRecording_def micProducer_def roomSfu_def opusConsumerSide_def
        opusProducerSide_def codecFromRtpParameters_def codecInfoOf_def lower_vals incl_vals seg_vals
        kind_str_def Let_def mixedFfArgs_def buildFilterComplex_def filterParts_def xstackPart_def
        audioParts_def videoLabels_def layoutParts_def computeLayout_def nat_str_vals
        resumeAll_def videoConsumers_def)

subsection \<open>SDP shape\<close>

text \<open>
  Claim C6, as amended.  For every kind, codec name, clock rate, channel count, payload
  type, port and format-parameter string, the per-input SDP of the mixed recorder is the
  fixed preamble followed by one media section of the contract's shape, with the rtcp
  line on the next port; the SDP of the per-participant recorder is the preamble followed
  by the same section without the rtcp line.  In both, exactly one line is a media line,
  the fmtp line is present exactly when the format-parameter string is non-empty, and an
  undefined or zero channel count is written as 2.
\<close>

theorem per_input_sdp_shape:
  "buildPerInputSdp k name clockRt chans pt port fmtp =
     sdpText (sdpPreamble ''FFmpegInput'' @ mediaSectionShape True k port pt name clockRt chans fmtp)
   \<and> sdpFor k pt name clockRt port chans fmtp =
     sdpText (sdpPreamble ''FFmpegInput'' @ mediaSectionShape False k port pt name clockRt chans fmtp)
   \<and> length (filter isMediaLine (buildPerInputSdpLines k name clockRt chans pt port fmtp)) = 1
   \<and> length (filter isMediaLine (sdpForLines k pt name clockRt port chans fmtp)) = 1"
proof (cases k)
  case Audio
  then show ?thesis
    by (simp add: buildPerInputSdp_def buildPerInputSdpLines_def sdpFor_def sdpForLines_def
      sdpText_def mediaSectionShape_def mLine_def kind_str_def sdpPreamble_def isMediaLine_def fmtpLine_def)
next
  case Video
  then show ?thesis
    by (simp add: buildPerInputSdp_def buildPerInputSdpLines_def sdpFor_def sdpForLines_def
      sdpText_def mediaSectionShape_def mLine_def kind_str_def sdpPreamble_def isMediaLine_def fmtpLine_def)
qed

text \<open>The claim as stated fails for the per-participant recorder: for a VP8 input on
  port 5004 its SDP is not the one with the rtcp line; it ends after the recvonly
  line.\<close>

theorem sdpFor_has_no_rtcp_line:
  "sdpFor Video 96 (Some ''VP8'') 90000 5004 None [] \<noteq>
     sdpText (sdpPreamble ''FFmpegInput'' @
              mediaSectionShape True Video 5004 96 (Some ''VP8'') 90000 None [])
   \<and> sdpForLines Video 96 (Some ''VP8'') 90000 5004 None [] =
     [''v=0'', ''o=- 0 0 IN IP4 127.0.0.1'', ''s=FFmpegInput'', ''c=IN IP4 127.0.0.1'', ''t=0 0'',
      ''m=video 5004 RTP/AVP 96'', ''a=rtpmap:96 VP8/90000'', ''a=recvonly'']"
  by (simp add: sdpFor_def sdpForLines_def sdpText_def sdpPreamble_def mediaSectionShape_def
        mLine_def kind_str_def tmpl_def nat_str_vals)

subsection \<open>Port allocation\<close>

lemma getFreePort_loop_InrD:
  "getFreePort_loop base F R i = Inr P \<Longrightarrow>
     \<exists>k. i \<le> k \<and> k < 200 \<and> P = base + R k \<and> F k P \<and> (\<forall>j. i \<le> j \<and> j < k \<longrightarrow> \<not> F j (base + R j))"
proof (induction base F R i rule: getFreePort_loop.induct)
  case (1 base F R i)
  show ?case
  proof (cases "i < 200")
    case False
    with "1.prems" show ?thesis by (simp add: getFreePort_loop.simps [of base F R i])
  next
    case True
    show ?thesis
    proof (cases "F i (base + R i)")
      case free: True
      with True "1.prems" have "P = base + R i"
        by (simp add: getFreePort_loop.simps [of base F R i])
      with True free show ?thesis by (intro exI [of _ i]) auto
    next
      case busy: False
      with True "1.prems" have "getFreePort_loop base F R (i + 1) = Inr P"
        by (simp add: getFreePort_loop.simps [of base F R i])
      with "1.IH" [OF True refl busy] obtain k where
        k: "i + 1 \<le> k" "k < 200" "P = base + R k" "F k P"
           "\<forall>j. i + 1 \<le> j \<and> j < k \<longrightarrow> \<not> F j (base + R j)"
        by blast
      have "\<forall>j. i \<le> j \<and> j < k \<longrightarrow> \<not> F j (base + R j)"
      proof (intro allI impI)
        fix j assume "i \<le> j \<and> j < k"
        then show "\<not> F j (base + R j)" using busy k(5) by (cases "j = i") auto
      qed
      with k show ?thesis by (intro exI [of _ k]) auto
    qed
  qed
qed

lemma getFreePort_loop_InrI:
  "i \<le> k \<Longrightarrow> k < 200 \<Longrightarrow> F k (base + R k) \<Longrightarrow> (\<forall>j. i \<le> j \<and> j < k \<longrightarrow> \<not> F j (base + R j)) \<Longrightarrow>
     getFreePort_loop base F R i = Inr (base + R k)"
proof (induction base F R i rule: getFreePort_loop.induct)
  case (1 base F R i)
  show ?case
  proof (cases "i = k")
    case True
    with "1.prems" show ?thesis by (simp add: getFreePort_loop.simps [of base F R k])
  next
    case False
    with "1.prems" have lt: "i < k" and busy: "\<not> F i (base + R i)" by auto
    from lt "1.prems" have i200: "i < 200" by simp
    have "getFreePort_loop base F R (i + 1) = Inr (base + R k)"
      using "1.IH" [OF i200 refl busy] lt "1.prems" by auto
    with i200 busy show ?thesis by (simp add: getFreePort_loop.simps [of base F R i])
  qed
qed

lemma getFreePort_loop_Inl:
  "getFreePort_loop base F R i = Inl e \<longleftrightarrow>
     e = NoFreeUdpPort \<and> (\<forall>j. i \<le> j \<and> j < 200 \<longrightarrow> \<not> F j (base + R j))"
proof (induction base F R i rule: getFreePort_loop.induct)
  case (1 base F R i)
  show ?case
  proof (cases "i < 200")
    case False
    then show ?thesis by (auto simp: getFreePort_loop.simps [of base F R i])
  next
    case True
    show ?thesis
    proof (cases "F i (base + R i)")
      case free: True
      with True show ?thesis by (auto simp: getFreePort_loop.simps [of base F R i])
    next
      case busy: False
      have "(\<forall>j. i \<le> j \<and> j < 200 \<longrightarrow> \<not> F j (base + R j)) \<longleftrightarrow>
            (\<forall>j. i + 1 \<le> j \<and> j < 200 \<longrightarrow> \<not> F j (base + R j))"
      proof
        assume a: "\<forall>j. i + 1 \<le> j \<and> j < 200 \<longrightarrow> \<not> F j (base + R j)"
        show "\<forall>j. i \<le> j \<and> j < 200 \<longrightarrow> \<not> F j (base + R j)"
        proof (intro allI impI)
          fix j assume "i \<le> j \<and> j < 200"
          then show "\<not> F j (base + R j)" using busy a by (cases "j = i") auto
        qed
      qed auto
      with "1.IH" [OF True refl busy] True busy show ?thesis
        by (simp add: getFreePort_loop.simps [of base F R i])
    qed
  qed
qed

text \<open>
  Claim C7, as amended.  The allocator of the mixed recorder (base 15000) and of the
  per-participant recorder (base 20000) tries at most 200 candidates.  It returns port
  \<open>P\<close> exactly when \<open>P\<close> is the first candidate whose own probe succeeded, so \<open>P\<close>
  was free when probed and every earlier candidate was not; the port \<open>P + 1\<close> is not
  probed.  It fails, with the no-free-port error, exactly when none of the 200
  candidates could be bound.  The function is total, so one of the two happens.
\<close>

theorem getFreePort_first_free_candidate:
  "(mixed_getFreePort F R = Inr P \<longleftrightarrow>
      (\<exists>k<200. P = 15000 + R k \<and> F k P \<and> (\<forall>j<k. \<not> F j (15000 + R j))))
   \<and> (mixed_getFreePort F R = Inl e \<longleftrightarrow>
      e = NoFreeUdpPort \<and> (\<forall>j<200. \<not> F j (15000 + R j)))
   \<and> (per_getFreePort F R = Inr P \<longleftrightarrow>
      (\<exists>k<200. P = 20000 + R k \<and> F k P \<and> (\<forall>j<k. \<not> F j (20000 + R j))))
   \<and> (per_getFreePort F R = Inl e \<longleftrightarrow>
      e = NoFreeUdpPort \<and> (\<forall>j<200. \<not> F j (20000 + R j)))"
proof -
  have inr: "getFreePort_loop base F R 0 = Inr P \<longleftrightarrow>
      (\<exists>k<200. P = base + R k \<and> F k P \<and> (\<forall>j<k. \<not> F j (base + R j)))" for base
  proof
    assume "getFreePort_loop base F R 0 = Inr P"
    from getFreePort_loop_InrD [OF this] show
      "\<exists>k<200. P = base + R k \<and> F k P \<and> (\<forall>j<k. \<not> F j (base + R j))" by auto
  next
    assume "\<exists>k<200. P = base + R k \<and> F k P \<and> (\<forall>j<k. \<not> F j (base + R j))"
    then obtain k where k: "k < 200" "P = base + R k" "F k P" "\<forall>j<k. \<not> F j (base + R j)"
      by blast
    have "getFreePort_loop base F R 0 = Inr (base + R k)"
      by (rule getFreePort_loop_InrI) (use k in auto)
    with k show "getFreePort_loop base F R 0 = Inr P" by simp
  qed
  have inl: "getFreePort_loop base F R 0 = Inl e \<longleftrightarrow>
      e = NoFreeUdpPort \<and> (\<forall>j<200. \<not> F j (base + R j))" for base
    by (simp add: getFreePort_loop_Inl)
  show ?thesis
    unfolding mixed_getFreePort_def per_getFreePort_def
    using inr [of 15000] inr [of 20000] inl [of 15000] inl [of 20000] by blast
qed

theorem getFreePort_first_free_candidate_witness:
  "mixed_getFreePort only15000 rndZero = Inr 15000 \<and>
   mixed_getFreePort noPortFree rndZero = Inl NoFreeUdpPort \<and>
   per_getFreePort only20000 rndZero = Inr 20000 \<and>
   per_getFreePort noPortFree rndZero = Inl NoFreeUdpPort"
proof -
  have a: "\<exists>k<200. (15000::nat) = 15000 + rndZero k \<and> only15000 k 15000 \<and>
             (\<forall>j<k. \<not> only15000 j (15000 + rndZero j))"
    by (intro exI [of _ 0]) (simp add: rndZero_def only15000_def)
  have b: "\<exists>k<200. (20000::nat) = 20000 + rndZero k \<and> only20000 k 20000 \<and>
             (\<forall>j<k. \<not> only20000 j (20000 + rndZero j))"
    by (intro exI [of _ 0]) (simp add: rndZero_def only20000_def)
  have c: "\<forall>j<200. \<not> noPortFree j (b0 + rndZero j)" for b0
    by (simp add: noPortFree_def)
  show ?thesis
    using getFreePort_first_free_candidate [of only15000 rndZero 15000 NoFreeUdpPort] a
      getFreePort_first_free_candidate [of only20000 rndZero 20000 NoFreeUdpPort] b
      getFreePort_first_free_candidate [of noPortFree rndZero 0 NoFreeUdpPort] c [of 15000] c [of 20000]
    by blast
qed

text \<open>The claim as stated fails: where only port 15000 (only 20000) can be bound, the
  allocator returns it although the next port is not free.\<close>

theorem getFreePort_does_not_probe_next_port:
  "mixed_getFreePort only15000 rndZero = Inr 15000 \<and> \<not> only15000 0 (15000 + 1) \<and>
   per_getFreePort only20000 rndZero = Inr 20000 \<and> \<not> only20000 0 (20000 + 1)"
  by (simp add: mixed_getFreePort_def per_getFreePort_def getFreePort_loop.simps [of _ _ _ 0]
        only15000_def only20000_def rndZero_def)

subsection \<open>Minimum run time\<close>

text \<open>
  Claim C8, as amended.  A stop of a mixed recording issued before the floor is held for
  exactly the time missing to the floor.  In \<^verbatim>\<open>mixed-recording-manager.js\<close> the
  floor is 20000 ms after \<^verbatim>\<open>startedAt\<close>; in the later variant it is 5000 ms after
  the instant the muxer was seen to process frames, or after \<^verbatim>\<open>startedAt\<close> when that
  instant is unknown.  A stop at or after the floor is not held.  The hold is the first
  effect of the stop.  The per-participant stop never waits.
\<close>

theorem stop_hold_floor:
  "(startedAt \<noteq> 0 \<and> now - startedAt < 20000 \<longrightarrow>
      (\<exists>d. stopHold startedAt now = Some d \<and> (now + d) - startedAt = 20000))
   \<and> (startedAt \<noteq> 0 \<and> 20000 \<le> now - startedAt \<longrightarrow> stopHold startedAt now = None)
   \<and> (startedAt \<noteq> 0 \<and> now - startedAt < 5000 \<longrightarrow>
      (\<exists>d. stopHold_later None startedAt now = Some d \<and> (now + d) - startedAt = 5000))
   \<and> (t \<noteq> 0 \<and> now - t < 5000 \<longrightarrow>
      (\<exists>d. stopHold_later (Some t) startedAt now = Some d \<and> (now + d) - t = 5000))
   \<and> (t \<noteq> 0 \<and> 5000 \<le> now - t \<longrightarrow> stopHold_later (Some t) startedAt now = None)
   \<and> (stopHold (ms_startedAt st) now = Some d \<longrightarrow>
        hd (stopMixedTrace st now fate) = Sleep (nat d))
   \<and> (\<forall>d. Sleep d \<notin> set (per_stopTrace pst))"
  by (auto simp: stopHold_def stopHold_later_def minRunMs_def minRunMs_later_def Let_def
        stopMixedTrace_def holdEvents_def per_stopTrace_def itemStop_def)

theorem stop_hold_floor_witness:
  "stopHold 1000000 1000500 = Some 19500 \<and> stopHold 1000000 1020000 = None \<and>
   stopHold_later None 1000000 1000500 = Some 4500 \<and>
   stopHold_later (Some 1000200) 1000000 1000500 = Some 4700 \<and>
   stopHold_later (Some 1000200) 1000000 1005200 = None"
  using stop_hold_floor [of 1000000 1000500 1000200]
    stop_hold_floor [of 1000000 1020000 1000200 stx 19500 fx px]
    stop_hold_floor [of 1000000 1005200 1000200]
  by (simp add: stopHold_def stopHold_later_def minRunMs_def minRunMs_later_def)

text \<open>The claim as stated fails on \<^verbatim>\<open>mixed-recording-manager.js\<close>: a stop 500 ms
  after the start is held for 19500 ms, and a stop 5500 ms after the start, past five
  seconds, is still held.\<close>

theorem stop_hold_is_not_five_seconds:
  "stopHold 1000000 1000500 = Some 19500 \<and> stopHold 1000000 1005500 = Some 14500"
  by (simp add: stopHold_def minRunMs_def)

subsection \<open>A consumer without a codec of its kind\<close>

lemma codecInfo_eq: "codecInfo k rtp = codecFromRtpParameters k rtp"
  by (simp add: codecInfo_def codecFromRtpParameters_def)

lemma startItems_throws:
  "p \<in> set ps \<Longrightarrow> canConsume s (p_id p) \<Longrightarrow>
   codecInfo (p_kind p) (consumerRtp s (p_id p)) = None \<Longrightarrow>
   \<exists>e. startItems s baseDir ps acc = Inl e"
proof (induction ps arbitrary: acc)
  case Nil
  then show ?case by simp
next
  case (Cons q qs)
  show ?case
  proof (cases "q = p")
    case True
    with Cons.prems show ?thesis by (auto simp: Let_def split: sum.splits)
  next
    case False
    with Cons.prems have "p \<in> set qs" by simp
    from Cons.IH [OF this Cons.prems(2,3)] show ?thesis
      by (auto simp: Let_def split: sum.splits option.splits)
  qed
qed

lemma startItems_TypeError:
  "p \<in> set ps \<Longrightarrow> canConsume s (p_id p) \<Longrightarrow>
   codecInfo (p_kind p) (consumerRtp s (p_id p)) = None \<Longrightarrow>
   \<forall>q \<in> set ps. \<exists>port. freePort s (p_id q) = Inr port \<Longrightarrow>
   startItems s baseDir ps acc = Inl TypeErrorNull"
proof (induction ps arbitrary: acc)
  case Nil
  then show ?case by simp
next
  case (Cons q qs)
  from Cons.prems(4) obtain port where port: "freePort s (p_id q) = Inr port" by auto
  show ?case
  proof (cases "q = p")
    case True
    with Cons.prems port show ?thesis by (simp add: Let_def)
  next
    case False
    with Cons.prems have "p \<in> set qs" by simp
    from Cons.IH [OF this Cons.prems(2,3)] Cons.prems(4)
    have "startItems s baseDir qs acc' = Inl TypeErrorNull" for acc' by simp
    with port show ?thesis
      by (simp add: Let_def split: option.splits)
  qed
qed

lemma bindInputs_only_port_errors:
  "bindInputs k s dir ps acc = Inl e \<Longrightarrow> \<exists>q \<in> set ps. freePort s (p_id q) = Inl e"
proof (induction ps arbitrary: acc)
  case Nil
  then show ?case by simp
next
  case (Cons q qs)
  then show ?case
    by (auto simp: Let_def split: if_splits option.splits sum.splits)
qed

text \<open>
  Claim C10.  In the per-participant recorder the result of \<^verbatim>\<open>_codecInfo\<close> is
  dereferenced without a test.  If some producer that the router can consume gets a
  consumer whose RTP parameters hold no codec of the producer's kind, then
  \<^verbatim>\<open>start\<close> throws, whatever the other producers are, and no recording is
  registered; when every port allocation succeeds the exception is the
  \<^verbatim>\<open>TypeError\<close> of reading a property of \<^verbatim>\<open>null\<close>.  The binding loop of the
  mixed recorder, at such a producer, closes the transport it created and goes on with
  the remaining producers; the only error that loop can raise is a failed port
  allocation.
\<close>

theorem missing_codec_aborts_per_participant_start:
  assumes "p \<in> set ps" and "canConsume s (p_id p)"
    and "codecInfo (p_kind p) (consumerRtp s (p_id p)) = None"
  shows "(\<exists>e. per_start True ps s roomId now startedNow outDir = Inl e)
    \<and> ((\<forall>q \<in> set ps. \<exists>port. freePort s (p_id q) = Inr port) \<longrightarrow>
          per_start True ps s roomId now startedNow outDir = Inl TypeErrorNull)
    \<and> (\<forall>dir rest acc.
          bindInputs (p_kind p) s dir (p # rest) acc =
          bindInputs (p_kind p) s dir rest
            (acc\<lparr>b_trace := b_trace acc @
               [CreatePlainTransport (p_id p), Consume (p_id p) (p_id p) True,
                TransportClose (p_id p)]\<rparr>))
    \<and> (\<forall>k dir qs acc e. bindInputs k s dir qs acc = Inl e \<longrightarrow>
          (\<exists>q \<in> set qs. freePort s (p_id q) = Inl e))"
proof -
  from assms(1) have ne: "length ps \<noteq> 0" by auto
  have a: "\<exists>e. per_start True ps s roomId now startedNow outDir = Inl e"
    using startItems_throws [OF assms, of "outDir @ ''/per/'' @ roomId @ ''/'' @ ''rec-per-'' @ nat_str now" "([], [])"] ne
    by (auto simp: per_start_def Let_def)
  have b: "(\<forall>q \<in> set ps. \<exists>port. freePort s (p_id q) = Inr port) \<longrightarrow>
          per_start True ps s roomId now startedNow outDir = Inl TypeErrorNull"
  proof
    assume "\<forall>q \<in> set ps. \<exists>port. freePort s (p_id q) = Inr port"
    from startItems_TypeError [OF assms this] ne
    show "per_start True ps s roomId now startedNow outDir = Inl TypeErrorNull"
      by (simp add: per_start_def Let_def)
  qed
  have c: "bindInputs (p_kind p) s dir (p # rest) acc =
          bindInputs (p_kind p) s dir rest
            (acc\<lparr>b_trace := b_trace acc @
               [CreatePlainTransport (p_id p), Consume (p_id p) (p_id p) True,
                TransportClose (p_id p)]\<rparr>)" for dir rest acc
    using assms(2,3) by (simp add: codecInfo_eq)
  show ?thesis using a b c bindInputs_only_port_errors by blast
qed

theorem missing_codec_aborts_per_participant_start_witness:
  "per_start True [micProducer, camProducer] oddSfu ''room'' 1700000000000 1700000000050 ''files''
     = Inl TypeErrorNull
   \<and> bindInputs Video oddSfu ''files/sdp/rec-mix-1'' [camProducer]
        \<lparr>b_inputs = [], b_transports = [], b_consumers = [], b_trace = []\<rparr>
     = Inr \<lparr>b_inputs = [], b_transports = [], b_consumers = [],
            b_trace = [CreatePlainTransport ''v1'', Consume ''v1'' ''v1'' True,
                       TransportClose ''v1'']\<rparr>"
proof -
  have mem: "camProducer \<in> set [micProducer, camProducer]" by simp
  have can: "canConsume oddSfu (p_id camProducer)" by (simp add: oddSfu_def)
  have none: "codecInfo (p_kind camProducer) (consumerRtp oddSfu (p_id camProducer)) = None"
    by (simp add: codecInfo_def camProducer_def oddSfu_def opusConsumerSide_def kind_str_def
          lower_vals incl_vals)
  have ports: "\<forall>q \<in> set [micProducer, camProducer]. \<exists>port. freePort oddSfu (p_id q) = Inr port"
    by (simp add: oddSfu_def)
  from missing_codec_aborts_per_participant_start [OF mem can none,
      of "''room''" 1700000000000 1700000000050 "''files''"] ports
  show ?thesis by (simp add: camProducer_def)
qed

subsection \<open>Whose payload types the single-file recorder writes\<close>

text \<open>
  Claim C1, evaluated on the code.  In the small room the producers use payload types
  96 (VP8) and 111 (Opus) and the recording consumers are given 101 and 100.
  \<^verbatim>\<open>startRecording\<close> of \<^verbatim>\<open>recording-manager.js\<close> succeeds and pipes to the muxer
  an SDP whose media and rtpmap lines carry 96 and 111, the producers' payload types: it
  builds the SDP from \<^verbatim>\<open>producer.rtpParameters\<close> before any consumer exists.
\<close>

theorem single_file_sdp_uses_producer_payload_types:
  "(case startRecording True True [camProducer, micProducer] roomSfu (Inr 10000) 1700000000000 ''./files'' of
      Inl e \<Rightarrow> []
    | Inr (rid, tr) \<Rightarrow> sdpTexts tr) =
     [sdpText [''v=0'', ''o=- 0 0 IN IP4 127.0.0.1'', ''s=FFmpeg'', ''c=IN IP4 127.0.0.1'', ''t=0 0'',
               ''m=video 10000 RTP/AVP 96'', ''a=rtpmap:96 VP8/90000'', ''a=recvonly'',
               ''m=audio 10002 RTP/AVP 111'', ''a=rtpmap:111 opus/48000/2'', ''a=recvonly'']]
   \<and> map_option ci_payloadType (codecFromRtpParameters Video (consumerRtp roomSfu ''v1'')) = Some 101
   \<and> map_option ci_payloadType (codecFromRtpParameters Audio (consumerRtp roomSfu ''a1'')) = Some 100"
  by (simp add: startRecording_def camProducer_def micProducer_def roomSfu_def newFFmpeg_def
        createSdpText_def mediaSection_def firstCodec_def getCodecInfoFromRtpParameters_def
        vp8ProducerSide_def opusProducerSide_def vp8ConsumerSide_def opusConsumerSide_def
        kind_str_def channels_or_2_def sdpPreamble_def sdpText_def nat_str_vals nat_str_more
        connectProducersToRecording_def codecFromRtpParameters_def codecInfoOf_def
        lower_vals incl_vals seg_vals Let_def)

subsection \<open>Paused creation\<close>

text \<open>
  Claim C3, evaluated on the code.  The earlier \<^verbatim>\<open>connectProducersToRecording\<close> kept
  in \<^verbatim>\<open>recording-manager.js\<close> creates the consumer of a producer with a codec with
  \<^verbatim>\<open>paused: false\<close> and then calls \<^verbatim>\<open>resume\<close>: the consumer is not created
  paused.
\<close>

theorem legacy_consumer_created_unpaused:
  "connectProducersToRecording_legacy [camProducer] =
     [Consume ''transport'' ''v1'' False, ConsumerResume ''v1'']
   \<and> unpausedConsumers (connectProducersToRecording_legacy [camProducer]) = [''v1'']"
  by (simp add: connectProducersToRecording_legacy_def camProducer_def firstCodec_def)

subsection \<open>Order of effects of a stop\<close>

lemma beforeEvent_split: "e \<notin> set xs \<Longrightarrow> beforeEvent e (xs @ e # ys) = xs"
  by (induction xs) (auto simp: beforeEvent_def)

lemma beforeEvent_absent: "e \<notin> set xs \<Longrightarrow> beforeEvent e xs = xs"
  by (induction xs) (auto simp: beforeEvent_def)

lemma closeAll_isClose: "x \<in> set (closeAll st) \<Longrightarrow> isClose x"
  by (auto simp: closeAll_def)

lemma filter_closeAll: "filter isClose (closeAll st) = closeAll st"
  by (simp add: closeAll_isClose cong: filter_cong)

lemma not_close_notin_closeAll: "\<not> isClose e \<Longrightarrow> e \<notin> set (closeAll st)"
  using closeAll_isClose by blast

lemma holdEvents_no_close: "filter isClose (holdEvents st now) = []"
  by (simp add: holdEvents_def split: option.splits)

lemma holdEvents_notin:
  "StdinQuit h \<notin> set (holdEvents st now)" "ClearTimers \<notin> set (holdEvents st now)"
  "RegistryDelete r \<notin> set (holdEvents st now)"
  by (simp_all add: holdEvents_def split: option.splits)

lemma stopMixedTrace_alt:
  "stopMixedTrace st now fate =
     (holdEvents st now @ [WaitForClose (ms_ff st) 300] @
      (if \<not> exits300 fate then
         (if stdinUsable fate then [StdinQuit (ms_ff st)] else []) @
         [WaitForClose (ms_ff st) 30000]
       else []) @
      (if \<not> (exits300 fate \<or> exits30000 fate) then
         closeAll st @ [WaitForClose (ms_ff st) 5000]
       else [])) @
     ClearTimers # (closeAll st @
       RegistryDelete (ms_recordingId st) # [ProbeDuration (ms_outputPath st)])"
  by (simp add: stopMixedTrace_def)

lemma stop_quit_first:
  assumes "\<not> exits300 fate" "stdinUsable fate"
  shows "stopMixedTrace st now fate =
           (holdEvents st now @ [WaitForClose (ms_ff st) 300]) @ StdinQuit (ms_ff st) #
           ([WaitForClose (ms_ff st) 30000] @
            (if \<not> exits30000 fate then closeAll st @ [WaitForClose (ms_ff st) 5000] else []) @
            [ClearTimers] @ closeAll st @
            [RegistryDelete (ms_recordingId st), ProbeDuration (ms_outputPath st)])"
  using assms by (simp add: stopMixedTrace_def)

lemma stop_no_quit:
  assumes "exits300 fate \<or> \<not> stdinUsable fate"
  shows "StdinQuit h \<notin> set (stopMixedTrace st now fate)"
  using assms not_close_notin_closeAll [of "StdinQuit h" st]
  by (auto simp: stopMixedTrace_def holdEvents_notin)

lemma stop_before_clear:
  "filter isClose (beforeEvent ClearTimers (stopMixedTrace st now fate)) =
     (if exits300 fate \<or> exits30000 fate then [] else closeAll st)"
proof -
  let ?pre = "holdEvents st now @ [WaitForClose (ms_ff st) 300] @
      (if \<not> exits300 fate then
         (if stdinUsable fate then [StdinQuit (ms_ff st)] else []) @
         [WaitForClose (ms_ff st) 30000]
       else []) @
      (if \<not> (exits300 fate \<or> exits30000 fate) then
         closeAll st @ [WaitForClose (ms_ff st) 5000]
       else [])"
  have "ClearTimers \<notin> set ?pre"
    using not_close_notin_closeAll [of ClearTimers st] by (simp add: holdEvents_notin)
  then have "beforeEvent ClearTimers (stopMixedTrace st now fate) = ?pre"
    unfolding stopMixedTrace_alt by (rule beforeEvent_split)
  then show ?thesis by (simp add: holdEvents_no_close filter_closeAll)
qed

lemma stop_before_delete:
  "stopMixedTrace st now fate =
     beforeEvent (RegistryDelete (ms_recordingId st)) (stopMixedTrace st now fate) @
     [RegistryDelete (ms_recordingId st), ProbeDuration (ms_outputPath st)]
   \<and> filter isClose (beforeEvent (RegistryDelete (ms_recordingId st)) (stopMixedTrace st now fate)) =
     (if exits300 fate \<or> exits30000 fate then closeAll st else closeAll st @ closeAll st)"
proof -
  let ?d = "RegistryDelete (ms_recordingId st)"
  let ?pre = "holdEvents st now @ [WaitForClose (ms_ff st) 300] @
      (if \<not> exits300 fate then
         (if stdinUsable fate then [StdinQuit (ms_ff st)] else []) @
         [WaitForClose (ms_ff st) 30000]
       else []) @
      (if \<not> (exits300 fate \<or> exits30000 fate) then
         closeAll st @ [WaitForClose (ms_ff st) 5000]
       else []) @ [ClearTimers] @ closeAll st"
  have eq: "stopMixedTrace st now fate = ?pre @ ?d # [ProbeDuration (ms_outputPath st)]"
    by (simp add: stopMixedTrace_def)
  have "?d \<notin> set ?pre"
    using not_close_notin_closeAll [of ?d st] by (simp add: holdEvents_notin)
  then have b: "beforeEvent ?d (stopMixedTrace st now fate) = ?pre"
    unfolding eq by (rule beforeEvent_split)
  show ?thesis
    unfolding b using eq by (simp add: holdEvents_no_close filter_closeAll)
qed

lemma length_itemStop: "length (itemStop it) = 3"
  by (simp add: itemStop_def)

lemma per_stopTrace_alt:
  "per_stopTrace st = concat (map itemStop (ps_items st)) @
     [WriteMetadata (ps_baseDir st @ ''/metadata.json'') (map it_outFile (ps_items st)),
      RegistryDelete (ps_id st)]"
  by (simp add: per_stopTrace_def)

lemma concat_itemStop_nth:
  "i < length items \<Longrightarrow> j < 3 \<Longrightarrow>
     concat (map itemStop items) ! (3 * i + j) = itemStop (items ! i) ! j"
proof (induction items arbitrary: i)
  case Nil
  then show ?case by simp
next
  case (Cons it items)
  show ?case
  proof (cases i)
    case 0
    with Cons.prems show ?thesis by (simp add: nth_append length_itemStop)
  next
    case (Suc i')
    with Cons.prems have "i' < length items" by simp
    from Cons.IH [OF this Cons.prems(2)] Suc show ?thesis
      by (simp add: nth_append length_itemStop)
  qed
qed

lemma length_concat_itemStop: "length (concat (map itemStop items)) = 3 * length items"
  by (induction items) (simp_all add: length_itemStop)

lemma per_stop_order:
  "length (per_stopTrace st) = 3 * length (ps_items st) + 2
   \<and> per_stopTrace st ! (3 * length (ps_items st) + 1) = RegistryDelete (ps_id st)
   \<and> (\<forall>i < length (ps_items st).
        per_stopTrace st ! (3 * i) = Kill (it_ff (ps_items st ! i)) ''SIGINT'' \<and>
        per_stopTrace st ! (3 * i + 1) = ConsumerClose (it_consumer (ps_items st ! i)) \<and>
        per_stopTrace st ! (3 * i + 2) = TransportClose (it_transport (ps_items st ! i)))"
proof -
  have "per_stopTrace st ! (3 * i + j) = itemStop (ps_items st ! i) ! j"
    if "i < length (ps_items st)" "j < 3" for i j
  proof -
    from that have "3 * i + j < length (concat (map itemStop (ps_items st)))"
      by (simp add: length_concat_itemStop)
    then show ?thesis
      unfolding per_stopTrace_alt using concat_itemStop_nth [OF that]
      by (simp add: nth_append)
  qed
  from this [of _ 0] this [of _ 1] this [of _ 2]
  have items: "\<forall>i < length (ps_items st).
        per_stopTrace st ! (3 * i) = Kill (it_ff (ps_items st ! i)) ''SIGINT'' \<and>
        per_stopTrace st ! (3 * i + 1) = ConsumerClose (it_consumer (ps_items st ! i)) \<and>
        per_stopTrace st ! (3 * i + 2) = TransportClose (it_transport (ps_items st ! i))"
    by (simp add: itemStop_def)
  have len: "length (per_stopTrace st) = 3 * length (ps_items st) + 2"
    unfolding per_stopTrace_alt by (simp add: length_concat_itemStop)
  have del: "per_stopTrace st ! (3 * length (ps_items st) + 1) = RegistryDelete (ps_id st)"
    unfolding per_stopTrace_alt by (simp add: nth_append length_concat_itemStop)
  from len del items show ?thesis by blast
qed

text \<open>
  Claim C2, as amended.  Mixed stop: the quit request is written to the muxer exactly
  when the muxer had not exited within the first 300 ms and its standard input is
  usable, and then no consumer or transport is closed before the request.  Consumers
  and transports are closed ahead of the final clean-up only when the muxer exited
  neither within the first 300 ms nor within 30 s after that.  Every consumer and
  every transport of the recording is closed before the registry entry is deleted, the
  deletion is followed by the duration probe only, and the entry is gone from the
  registry afterwards.  Per-participant stop: for each item in turn its muxer is sent
  \<^verbatim>\<open>SIGINT\<close>, then its consumer and its transport are closed, without waiting for the
  muxer; the registry entry is deleted last.
\<close>

theorem stop_order:
  "(\<not> exits300 fate \<and> stdinUsable fate \<longrightarrow>
      StdinQuit (ms_ff st) \<in> set (stopMixedTrace st now fate) \<and>
      filter isClose (beforeEvent (StdinQuit (ms_ff st)) (stopMixedTrace st now fate)) = [])
   \<and> (exits300 fate \<or> \<not> stdinUsable fate \<longrightarrow>
      StdinQuit (ms_ff st) \<notin> set (stopMixedTrace st now fate))
   \<and> filter isClose (beforeEvent ClearTimers (stopMixedTrace st now fate)) =
      (if exits300 fate \<or> exits30000 fate then [] else closeAll st)
   \<and> stopMixedTrace st now fate =
      beforeEvent (RegistryDelete (ms_recordingId st)) (stopMixedTrace st now fate) @
      [RegistryDelete (ms_recordingId st), ProbeDuration (ms_outputPath st)]
   \<and> filter isClose (beforeEvent (RegistryDelete (ms_recordingId st)) (stopMixedTrace st now fate)) =
      (if exits300 fate \<or> exits30000 fate then closeAll st else closeAll st @ closeAll st)
   \<and> (active rid = Some st \<longrightarrow>
        stopMixedRecording active rid now fate = Inr (active(rid := None), stopMixedTrace st now fate))
   \<and> length (per_stopTrace pst) = 3 * length (ps_items pst) + 2
   \<and> per_stopTrace pst ! (3 * length (ps_items pst) + 1) = RegistryDelete (ps_id pst)
   \<and> (\<forall>i < length (ps_items pst).
        per_stopTrace pst ! (3 * i) = Kill (it_ff (ps_items pst ! i)) ''SIGINT'' \<and>
        per_stopTrace pst ! (3 * i + 1) = ConsumerClose (it_consumer (ps_items pst ! i)) \<and>
        per_stopTrace pst ! (3 * i + 2) = TransportClose (it_transport (ps_items pst ! i)))"
proof -
  have a: "\<not> exits300 fate \<and> stdinUsable fate \<longrightarrow>
      StdinQuit (ms_ff st) \<in> set (stopMixedTrace st now fate) \<and>
      filter isClose (beforeEvent (StdinQuit (ms_ff st)) (stopMixedTrace st now fate)) = []"
  proof
    assume h: "\<not> exits300 fate \<and> stdinUsable fate"
    then have eq: "stopMixedTrace st now fate =
           (holdEvents st now @ [WaitForClose (ms_ff st) 300]) @ StdinQuit (ms_ff st) #
           ([WaitForClose (ms_ff st) 30000] @
            (if \<not> exits30000 fate then closeAll st @ [WaitForClose (ms_ff st) 5000] else []) @
            [ClearTimers] @ closeAll st @
            [RegistryDelete (ms_recordingId st), ProbeDuration (ms_outputPath st)])"
      by (simp add: stop_quit_first)
    have "StdinQuit (ms_ff st) \<notin> set (holdEvents st now @ [WaitForClose (ms_ff st) 300])"
      by (simp add: holdEvents_notin)
    then have "beforeEvent (StdinQuit (ms_ff st)) (stopMixedTrace st now fate) =
                 holdEvents st now @ [WaitForClose (ms_ff st) 300]"
      unfolding eq by (rule beforeEvent_split)
    moreover have "StdinQuit (ms_ff st) \<in> set (stopMixedTrace st now fate)"
      unfolding eq by simp
    ultimately show "StdinQuit (ms_ff st) \<in> set (stopMixedTrace st now fate) \<and>
      filter isClose (beforeEvent (StdinQuit (ms_ff st)) (stopMixedTrace st now fate)) = []"
      by (simp add: holdEvents_no_close)
  qed
  have b: "exits300 fate \<or> \<not> stdinUsable fate \<longrightarrow>
      StdinQuit (ms_ff st) \<notin> set (stopMixedTrace st now fate)"
    using stop_no_quit by blast
  have e: "active rid = Some st \<longrightarrow>
        stopMixedRecording active rid now fate = Inr (active(rid := None), stopMixedTrace st now fate)"
    by (simp add: stopMixedRecording_def)
  show ?thesis
    using a b stop_before_clear [of st now fate] stop_before_delete [of st now fate] e
      per_stop_order [of pst]
    by blast
qed

lemma demo_traces:
  "stopMixedTrace mixedDemo 1030000 quitsOnRequest =
     [WaitForClose ''rec-mix-1'' 300, StdinQuit ''rec-mix-1'', WaitForClose ''rec-mix-1'' 30000,
      ClearTimers, ConsumerClose ''a1'', TransportClose ''a1'', RegistryDelete ''rec-mix-1'',
      ProbeDuration ''files/mixed-rec-mix-1.mp4'']"
  "stopMixedTrace mixedDemo 1030000 exitedEarly =
     [WaitForClose ''rec-mix-1'' 300,
      ClearTimers, ConsumerClose ''a1'', TransportClose ''a1'', RegistryDelete ''rec-mix-1'',
      ProbeDuration ''files/mixed-rec-mix-1.mp4'']"
  "per_stopTrace perDemo =
     [Kill ''a1'' ''SIGINT'', ConsumerClose ''a1'', TransportClose ''a1'',
      Kill ''v1'' ''SIGINT'', ConsumerClose ''v1'', TransportClose ''v1'',
      WriteMetadata ''files/per/room/rec-per-1/metadata.json'' [''a1.webm'', ''v1.webm''],
      RegistryDelete ''rec-per-1'']"
  by (simp_all add: stopMixedTrace_def holdEvents_def mixedDemo_def quitsOnRequest_def
        exitedEarly_def stopHold_def minRunMs_def closeAll_def per_stopTrace_def itemStop_def
        perDemo_def perItemDemo_def)

theorem stop_order_witness:
  "StdinQuit ''rec-mix-1'' \<in> set (stopMixedTrace mixedDemo 1030000 quitsOnRequest) \<and>
   filter isClose (beforeEvent (StdinQuit ''rec-mix-1'')
                     (stopMixedTrace mixedDemo 1030000 quitsOnRequest)) = [] \<and>
   StdinQuit ''rec-mix-1'' \<notin> set (stopMixedTrace mixedDemo 1030000 exitedEarly) \<and>
   per_stopTrace perDemo ! 3 = Kill ''v1'' ''SIGINT'' \<and>
   per_stopTrace perDemo ! 7 = RegistryDelete ''rec-per-1''"
proof -
  have q: "\<not> exits300 quitsOnRequest \<and> stdinUsable quitsOnRequest"
    by (simp add: quitsOnRequest_def)
  have x: "exits300 exitedEarly \<or> \<not> stdinUsable exitedEarly"
    by (simp add: exitedEarly_def)
  have i: "(1::nat) < length (ps_items perDemo)" by (simp add: perDemo_def)
  have f: "ms_ff mixedDemo = ''rec-mix-1''" "ps_id perDemo = ''rec-per-1''"
    "length (ps_items perDemo) = 2" "it_ff (ps_items perDemo ! Suc 0) = ''v1''"
    by (simp_all add: mixedDemo_def perDemo_def perItemDemo_def)
  note A = stop_order [of quitsOnRequest mixedDemo 1030000 Map.empty "''x''" perDemo]
  note B = stop_order [of exitedEarly mixedDemo 1030000 Map.empty "''x''" perDemo]
  from A q have a1: "StdinQuit (ms_ff mixedDemo) \<in> set (stopMixedTrace mixedDemo 1030000 quitsOnRequest)"
    and a2: "filter isClose (beforeEvent (StdinQuit (ms_ff mixedDemo))
               (stopMixedTrace mixedDemo 1030000 quitsOnRequest)) = []"
    by blast+
  from B x have b1: "StdinQuit (ms_ff mixedDemo) \<notin> set (stopMixedTrace mixedDemo 1030000 exitedEarly)"
    by blast
  from A i have c1: "per_stopTrace perDemo ! (3 * 1) = Kill (it_ff (ps_items perDemo ! 1)) ''SIGINT''"
    by blast
  from A have c2: "per_stopTrace perDemo ! (3 * length (ps_items perDemo) + 1) =
                     RegistryDelete (ps_id perDemo)"
    by blast
  from a1 a2 b1 c1 c2 show ?thesis by (simp add: f)
qed

text \<open>The claim as stated fails: when the muxer of a mixed recording has already
  exited, its consumer and transport are closed although no request to terminate was
  made; and in a per-participant recording with two items, the consumer of the first
  item is closed before the muxer of the second is signalled.\<close>

theorem stop_closes_without_request:
  "filter isClose (beforeEvent (StdinQuit ''rec-mix-1'')
                     (stopMixedTrace mixedDemo 1030000 exitedEarly)) =
     [ConsumerClose ''a1'', TransportClose ''a1''] \<and>
   StdinQuit ''rec-mix-1'' \<notin> set (stopMixedTrace mixedDemo 1030000 exitedEarly) \<and>
   ConsumerClose ''a1'' \<in> set (beforeEvent (Kill ''v1'' ''SIGINT'') (per_stopTrace perDemo))"
  by (simp add: demo_traces beforeEvent_def)

subsection \<open>Paused creation and resume on the current start paths\<close>

lemma unpausedConsumers_append:
  "unpausedConsumers (xs @ ys) = unpausedConsumers xs @ unpausedConsumers ys"
  by (induction xs rule: unpausedConsumers.induct) auto

lemma sdpTexts_append: "sdpTexts (xs @ ys) = sdpTexts xs @ sdpTexts ys"
  by (induction xs rule: sdpTexts.induct) auto

lemma earlyResumes_quiet:
  "\<forall>e \<in> set xs. quiet e \<Longrightarrow> earlyResumes m sp (xs @ ys) = earlyResumes m sp ys"
  by (induction m sp xs rule: earlyResumes.induct) auto

lemma earlyResumes_quiet_end:
  "\<forall>e \<in> set ys. quiet e \<Longrightarrow> earlyResumes m sp (xs @ ys) = earlyResumes m sp xs"
proof (induction m sp xs rule: earlyResumes.induct)
  case (1 muxerOf spawned)
  then show ?case using earlyResumes_quiet [of ys muxerOf spawned "[]"] by simp
qed auto

lemma bindInputs_trace:
  "bindInputs k s dir ps acc = Inr b \<Longrightarrow>
     \<exists>tr. b_trace b = b_trace acc @ tr \<and> unpausedConsumers tr = [] \<and> (\<forall>e \<in> set tr. quiet e)"
proof (induction ps arbitrary: acc)
  case Nil
  then show ?case by simp
next
  case (Cons p ps)
  show ?case
  proof (cases "canConsume s (p_id p)")
    case False
    with Cons show ?thesis by simp
  next
    case True
    show ?thesis
    proof (cases "codecFromRtpParameters k (consumerRtp s (p_id p))")
      case None
      let ?acc = "acc\<lparr>b_trace := b_trace acc @
                  [CreatePlainTransport (p_id p), Consume (p_id p) (p_id p) True,
                   TransportClose (p_id p)]\<rparr>"
      from None True Cons.prems have "bindInputs k s dir ps ?acc = Inr b" by simp
      from Cons.IH [OF this] obtain tr where
        "b_trace b = b_trace ?acc @ tr" "unpausedConsumers tr = []" "\<forall>e \<in> set tr. quiet e"
        by blast
      then show ?thesis
        by (intro exI [of _ "[CreatePlainTransport (p_id p), Consume (p_id p) (p_id p) True,
                   TransportClose (p_id p)] @ tr"]) (simp add: unpausedConsumers_append)
    next
      case (Some ci)
      with True Cons.prems obtain port where port: "freePort s (p_id p) = Inr port"
        by (cases "freePort s (p_id p)") auto
      let ?new = "[CreatePlainTransport (p_id p), Consume (p_id p) (p_id p) True,
                   TransportConnect (p_id p) port (port + 1),
                   WriteFile (dir @ ''/'' @ (if k = Video then ''v-'' else ''a-'') @ p_id p @ ''.sdp'')
                     (buildPerInputSdp k (ci_codecName ci) (ci_clockRate ci)
                        (if k = Audio then ci_channels ci else None)
                        (ci_payloadType ci) port (ci_fmtp ci))]"
      from Some True port Cons.prems obtain acc' where
        acc': "bindInputs k s dir ps acc' = Inr b" "b_trace acc' = b_trace acc @ ?new"
        by (simp add: Let_def)
      from Cons.IH [OF acc'(1)] obtain tr where
        "b_trace b = b_trace acc' @ tr" "unpausedConsumers tr = []" "\<forall>e \<in> set tr. quiet e"
        by blast
      with acc'(2) show ?thesis
        by (intro exI [of _ "?new @ tr"]) (simp add: unpausedConsumers_append)
    qed
  qed
qed

lemma resumeAll_props:
  "unpausedConsumers (resumeAll cs) = []"
  "muxerOf = (\<lambda>c. h) \<Longrightarrow> earlyResumes muxerOf (h # sp) (resumeAll cs @ ys) = earlyResumes muxerOf (h # sp) ys"
  by (induction cs) (auto simp: resumeAll_def)

lemma timers_props:
  "unpausedConsumers (map (\<lambda>c. SetKeyframeTimer c n) cs) = []"
  "earlyResumes m sp (map (\<lambda>c. SetKeyframeTimer c n) cs @ ys) = earlyResumes m sp ys"
  by (induction cs) auto

lemma mixed_start_paused_then_resumed:
  assumes "startMixedRecording routerReady producers s now startedNow outDir width height = Inr (st, tr)"
  shows "unpausedConsumers tr = [] \<and> earlyResumes (\<lambda>c. ms_ff st) [] tr = []"
proof -
  let ?dir = "outDir @ ''/sdp/'' @ ''rec-mix-'' @ nat_str now"
  let ?e = "\<lparr>b_inputs = [], b_transports = [], b_consumers = [], b_trace = []\<rparr>"
  from assms obtain bv b where
    bv: "bindInputs Video s ?dir (take 4 (filter (\<lambda>p. p_kind p = Video) producers)) ?e = Inr bv"
    and b: "bindInputs Audio s ?dir (filter (\<lambda>p. p_kind p = Audio) producers) bv = Inr b"
    and tr: "\<exists>args. tr = b_trace b @ [Spawn (ms_ff st) args] @ resumeAll (b_consumers b) @
               map (\<lambda>c. SetKeyframeTimer c 2000) (videoConsumers (b_consumers b)) @
               [RegistrySet (ms_ff st)]"
    by (auto simp: startMixedRecording_def Let_def split: if_splits sum.splits)
  from bindInputs_trace [OF bv] obtain t1 where
    t1: "b_trace bv = t1" "unpausedConsumers t1 = []" "\<forall>e \<in> set t1. quiet e" by auto
  from bindInputs_trace [OF b] obtain t2 where
    t2: "b_trace b = b_trace bv @ t2" "unpausedConsumers t2 = []" "\<forall>e \<in> set t2. quiet e" by auto
  from tr obtain args where
    tr': "tr = b_trace b @ [Spawn (ms_ff st) args] @ resumeAll (b_consumers b) @
               map (\<lambda>c. SetKeyframeTimer c 2000) (videoConsumers (b_consumers b)) @
               [RegistrySet (ms_ff st)]" by blast
  have q: "\<forall>e \<in> set (b_trace b). quiet e" using t1 t2 by auto
  have u: "unpausedConsumers tr = []"
    unfolding tr' using t1 t2
    by (simp add: unpausedConsumers_append resumeAll_props timers_props)
  have r: "earlyResumes (\<lambda>c. ms_ff st) [] tr = []"
    unfolding tr' by (simp add: earlyResumes_quiet [OF q] resumeAll_props timers_props)
  from u r show ?thesis by simp
qed


lemma earlyResumes_spawned:
  "h \<in> set sp \<Longrightarrow> earlyResumes (\<lambda>c. h) sp xs = []"
  by (induction "\<lambda>c::string. h" sp xs rule: earlyResumes.induct) auto

lemma startItems_trace:
  "startItems s dir ps acc = Inr (items, tr) \<Longrightarrow>
     \<exists>t. tr = snd acc @ t \<and> unpausedConsumers t = [] \<and> (\<forall>sp. earlyResumes (\<lambda>c. c) sp t = [])"
proof (induction ps arbitrary: acc)
  case Nil
  then show ?case by auto
next
  case (Cons p ps)
  show ?case
  proof (cases "canConsume s (p_id p)")
    case False
    with Cons show ?thesis by simp
  next
    case True
    with Cons.prems obtain port c where port: "freePort s (p_id p) = Inr port"
      and c: "codecInfo (p_kind p) (consumerRtp s (p_id p)) = Some c"
      by (cases "freePort s (p_id p)"; cases "codecInfo (p_kind p) (consumerRtp s (p_id p))")
         (auto simp: Let_def)
    let ?stem = "dir @ ''/'' @ kind_str (p_kind p) @ ''-'' @ p_peer p @ ''-'' @ p_id p"
    let ?new = "[CreatePlainTransport (p_id p), Consume (p_id p) (p_id p) True,
                 TransportConnect (p_id p) port (port + 1),
                 WriteFile (?stem @ ''.sdp'')
                   (sdpFor (p_kind p) (ci_payloadType c) (ci_codecName c)
                      (ci_clockRate c) port (ci_channels c) (ci_fmtp c)),
                 Spawn (p_id p) (perFfArgs (p_kind p) (?stem @ ''.sdp'') (?stem @ ''.webm'')),
                 ConsumerResume (p_id p)] @
                (if p_kind p = Video then [RequestKeyFrame (p_id p)] else [])"
    from True port c Cons.prems obtain acc' where
      acc': "startItems s dir ps acc' = Inr (items, tr)" "snd acc' = snd acc @ ?new"
      by (simp add: Let_def)
    from Cons.IH [OF acc'(1)] obtain t where
      t: "tr = snd acc' @ t" "unpausedConsumers t = []" "\<forall>sp. earlyResumes (\<lambda>c. c) sp t = []"
      by blast
    have "tr = snd acc @ (?new @ t)" using t(1) acc'(2) by simp
    moreover have "unpausedConsumers (?new @ t) = []" using t(2) by simp
    moreover have "\<forall>sp. earlyResumes (\<lambda>c. c) sp (?new @ t) = []" using t(3) by simp
    ultimately show ?thesis by blast
  qed
qed

lemma connect_props:
  "unpausedConsumers (connectProducersToRecording s hv ha ps) = []"
  by (induction ps) (auto simp: connectProducersToRecording_def)

text \<open>
  Property X3.  Whenever the mixed recorder, the per-participant recorder or the current
  single-file recorder starts successfully, every consumer in the trace of the start was
  created paused, and no consumer was resumed before the muxer that reads its stream was
  spawned with its argument vector.
\<close>

theorem consumers_paused_until_spawn:
  "(startMixedRecording routerReady producers s now startedNow outDir width height = Inr (st, tr)
      \<longrightarrow> unpausedConsumers tr = [] \<and> earlyResumes (\<lambda>c. ms_ff st) [] tr = [])
   \<and> (per_start routerReady producers s roomId now startedNow outDir = Inr (pst, ptr)
      \<longrightarrow> unpausedConsumers ptr = [] \<and> earlyResumes (\<lambda>c. c) [] ptr = [])
   \<and> (startRecording roomReady routerReady producers s basePort now outDir = Inr (rid, rtr)
      \<longrightarrow> unpausedConsumers rtr = [] \<and> earlyResumes (\<lambda>c. rid) [] rtr = [])"
proof -
  have per: "unpausedConsumers ptr = [] \<and> earlyResumes (\<lambda>c. c) [] ptr = []"
    if "per_start routerReady producers s roomId now startedNow outDir = Inr (pst, ptr)"
  proof -
    from that obtain items t0 where
      it: "startItems s (outDir @ ''/per/'' @ roomId @ ''/'' @ ''rec-per-'' @ nat_str now)
             producers ([], []) = Inr (items, t0)"
      and ptr: "ptr = t0 @ [RegistrySet (''rec-per-'' @ nat_str now)]"
      by (auto simp: per_start_def Let_def split: if_splits sum.splits)
    from startItems_trace [OF it] have
      "unpausedConsumers t0 = []" "\<forall>sp. earlyResumes (\<lambda>c. c) sp t0 = []" by auto
    then show ?thesis
      unfolding ptr by (simp add: unpausedConsumers_append earlyResumes_quiet_end)
  qed
  have single: "unpausedConsumers rtr = [] \<and> earlyResumes (\<lambda>c. rid) [] rtr = []"
    if "startRecording roomReady routerReady producers s basePort now outDir = Inr (rid, rtr)"
  proof -
    from that obtain args sdp rest where
      rtr: "rtr = [Spawn rid args, StdinPipe rid sdp] @ rest"
      and rest: "unpausedConsumers rest = []"
      by (auto simp: startRecording_def newFFmpeg_def Let_def unpausedConsumers_append connect_props
               split: if_splits sum.splits prod.splits)
    show ?thesis unfolding rtr using rest by (simp add: earlyResumes_spawned)
  qed
  show ?thesis
    using mixed_start_paused_then_resumed per single by blast
qed

lemma start_values:
  "\<exists>st tr. startMixedRecording True [camProducer, micProducer] roomSfu 1700000000000 1700000000050
              ''files'' 1280 720 = Inr (st, tr)"
  "\<exists>st tr. per_start True [camProducer, micProducer] roomSfu ''room'' 1700000000000 1700000000050
              ''files'' = Inr (st, tr)"
  "\<exists>rid tr. startRecording True True [camProducer, micProducer] roomSfu (Inr 10000) 1700000000000
              ''./files'' = Inr (rid, tr)"
  by (simp_all add: startMixedRecording_def per_start_def startRecording_def camProducer_def
        micProducer_def roomSfu_def newFFmpeg_def createSdpText_def mediaSection_def firstCodec_def
        getCodecInfoFromRtpParameters_def vp8ProducerSide_def opusProducerSide_def
        vp8ConsumerSide_def opusConsumerSide_def kind_str_def codecFromRtpParameters_def
        codecInfo_def codecInfoOf_def lower_vals incl_vals seg_vals Let_def)

theorem consumers_paused_until_spawn_witness:
  "(case startMixedRecording True [camProducer, micProducer] roomSfu 1700000000000 1700000000050
           ''files'' 1280 720 of
      Inl e \<Rightarrow> False
    | Inr (st, tr) \<Rightarrow> unpausedConsumers tr = [] \<and> earlyResumes (\<lambda>c. ms_ff st) [] tr = [])
   \<and> (case per_start True [camProducer, micProducer] roomSfu ''room'' 1700000000000 1700000000050
           ''files'' of
      Inl e \<Rightarrow> False
    | Inr (st, tr) \<Rightarrow> unpausedConsumers tr = [] \<and> earlyResumes (\<lambda>c. c) [] tr = [])
   \<and> (case startRecording True True [camProducer, micProducer] roomSfu (Inr 10000) 1700000000000
           ''./files'' of
      Inl e \<Rightarrow> False
    | Inr (rid, tr) \<Rightarrow> unpausedConsumers tr = [] \<and> earlyResumes (\<lambda>c. rid) [] tr = [])"
proof -
  from start_values obtain st tr pst ptr rid rtr where
    a: "startMixedRecording True [camProducer, micProducer] roomSfu 1700000000000 1700000000050
              ''files'' 1280 720 = Inr (st, tr)"
    and b: "per_start True [camProducer, micProducer] roomSfu ''room'' 1700000000000 1700000000050
              ''files'' = Inr (pst, ptr)"
    and c: "startRecording True True [camProducer, micProducer] roomSfu (Inr 10000) 1700000000000
              ''./files'' = Inr (rid, rtr)"
    by blast
  from consumers_paused_until_spawn [of True "[camProducer, micProducer]" roomSfu 1700000000000
      1700000000050 "''files''" 1280 720 st tr "''room''" pst ptr True "Inr 10000" rid rtr]
    consumers_paused_until_spawn [of True "[camProducer, micProducer]" roomSfu 1700000000000
      1700000000050 "''./files''" 1280 720 st tr "''room''" pst ptr True "Inr 10000" rid rtr] a b c
  show ?thesis by simp
qed

subsection \<open>Whose parameters the SDP carries\<close>

lemma codecFrom_picked:
  "codecFromRtpParameters k rtp = map_option (codecInfoOf k) (pickedCodec k rtp)"
  "codecInfo k rtp = map_option (codecInfoOf k) (pickedCodec k rtp)"
  by (simp_all add: codecFromRtpParameters_def codecInfo_def pickedCodec_def split: option.splits)

lemma channels_or_2_idem: "channels_or_2 (Some (channels_or_2 ch)) = channels_or_2 ch"
  by (simp add: channels_or_2_def split: option.splits)

lemma mixedSdpOf_eq:
  "buildPerInputSdp k (ci_codecName (codecInfoOf k c)) (ci_clockRate (codecInfoOf k c))
     (if k = Audio then ci_channels (codecInfoOf k c) else None)
     (ci_payloadType (codecInfoOf k c)) port (ci_fmtp (codecInfoOf k c)) = mixedSdpOf k c port"
  by (cases k)
     (simp_all add: buildPerInputSdp_def buildPerInputSdpLines_def mixedSdpOf_def sdpText_def
        mediaSectionShape_def mLine_def kind_str_def codecInfoOf_def channels_or_2_idem fmtpLine_def)

lemma perSdpOf_eq:
  "sdpFor k (ci_payloadType (codecInfoOf k c)) (ci_codecName (codecInfoOf k c))
     (ci_clockRate (codecInfoOf k c)) port (ci_channels (codecInfoOf k c))
     (ci_fmtp (codecInfoOf k c)) = perSdpOf k c port"
  by (cases k)
     (simp_all add: sdpFor_def sdpForLines_def perSdpOf_def sdpText_def
        mediaSectionShape_def mLine_def kind_str_def codecInfoOf_def channels_or_2_idem fmtpLine_def)

lemma bindInputs_sdp:
  "bindInputs k s dir ps acc = Inr b \<Longrightarrow> text \<in> set (sdpTexts (b_trace b)) \<Longrightarrow>
     text \<in> set (sdpTexts (b_trace acc)) \<or>
     (\<exists>p \<in> set ps. \<exists>c port. pickedCodec k (consumerRtp s (p_id p)) = Some c \<and>
        freePort s (p_id p) = Inr port \<and> text = mixedSdpOf k c port)"
proof (induction ps arbitrary: acc)
  case Nil
  then show ?case by simp
next
  case (Cons p ps)
  show ?case
  proof (cases "canConsume s (p_id p)")
    case False
    with Cons.prems have "bindInputs k s dir ps acc = Inr b" by simp
    from Cons.IH [OF this Cons.prems(2)] show ?thesis by auto
  next
    case True
    show ?thesis
    proof (cases "pickedCodec k (consumerRtp s (p_id p))")
      case None
      let ?acc = "acc\<lparr>b_trace := b_trace acc @
                  [CreatePlainTransport (p_id p), Consume (p_id p) (p_id p) True,
                   TransportClose (p_id p)]\<rparr>"
      from None True Cons.prems have "bindInputs k s dir ps ?acc = Inr b"
        by (simp add: codecFrom_picked)
      from Cons.IH [OF this Cons.prems(2)] show ?thesis by (auto simp: sdpTexts_append)
    next
      case (Some c)
      with True Cons.prems obtain port where port: "freePort s (p_id p) = Inr port"
        by (cases "freePort s (p_id p)") (auto simp: codecFrom_picked)
      from Some True port Cons.prems obtain acc' where
        acc': "bindInputs k s dir ps acc' = Inr b"
          "sdpTexts (b_trace acc') = sdpTexts (b_trace acc) @ [mixedSdpOf k c port]"
        by (simp add: codecFrom_picked Let_def sdpTexts_append mixedSdpOf_eq)
      from Cons.IH [OF acc'(1) Cons.prems(2)] acc'(2) Some port show ?thesis by auto
    qed
  qed
qed

lemma startItems_sdp:
  "startItems s dir ps acc = Inr (items, tr) \<Longrightarrow> text \<in> set (sdpTexts tr) \<Longrightarrow>
     text \<in> set (sdpTexts (snd acc)) \<or>
     (\<exists>p \<in> set ps. \<exists>c port. pickedCodec (p_kind p) (consumerRtp s (p_id p)) = Some c \<and>
        freePort s (p_id p) = Inr port \<and> text = perSdpOf (p_kind p) c port)"
proof (induction ps arbitrary: acc)
  case Nil
  then show ?case by auto
next
  case (Cons p ps)
  show ?case
  proof (cases "canConsume s (p_id p)")
    case False
    with Cons.prems have "startItems s dir ps acc = Inr (items, tr)" by simp
    from Cons.IH [OF this Cons.prems(2)] show ?thesis by auto
  next
    case True
    with Cons.prems obtain port c where port: "freePort s (p_id p) = Inr port"
      and c: "pickedCodec (p_kind p) (consumerRtp s (p_id p)) = Some c"
      by (cases "freePort s (p_id p)"; cases "pickedCodec (p_kind p) (consumerRtp s (p_id p))")
         (auto simp: Let_def codecFrom_picked)
    from True port c Cons.prems obtain acc' where
      acc': "startItems s dir ps acc' = Inr (items, tr)"
        "sdpTexts (snd acc') = sdpTexts (snd acc) @ [perSdpOf (p_kind p) c port]"
      by (simp add: Let_def codecFrom_picked sdpTexts_append perSdpOf_eq)
    from Cons.IH [OF acc'(1) Cons.prems(2)] acc'(2) c port show ?thesis by auto
  qed
qed

lemma bindInputs_ignores_producer_rtp:
  "bindInputs k s dir (map (\<lambda>p. p\<lparr>p_rtp := f p\<rparr>) ps) acc = bindInputs k s dir ps acc"
  by (induction ps arbitrary: acc)
     (simp_all add: Let_def cong: option.case_cong sum.case_cong if_cong)

lemma startItems_ignores_producer_rtp:
  "startItems s dir (map (\<lambda>p. p\<lparr>p_rtp := f p\<rparr>) ps) acc = startItems s dir ps acc"
  by (induction ps arbitrary: acc)
     (simp_all add: Let_def cong: option.case_cong sum.case_cong if_cong)

text \<open>
  Property X1.  Every SDP written by the binding loop of the mixed recorder, and by the
  loop of the per-participant recorder, is the SDP of a codec picked from the RTP
  parameters of the consumer of one of the producers, on the port allocated for it: the
  payload type, codec name, clock rate, channel count and format parameters are the
  consumer's.  Neither loop depends on the producers' own RTP parameters.
\<close>

theorem sdp_from_consumer_parameters:
  "(bindInputs k s dir ps acc = Inr b \<longrightarrow>
      (\<forall>text \<in> set (sdpTexts (b_trace b)).
         text \<in> set (sdpTexts (b_trace acc)) \<or>
         (\<exists>p \<in> set ps. \<exists>c port. pickedCodec k (consumerRtp s (p_id p)) = Some c \<and>
            freePort s (p_id p) = Inr port \<and> text = mixedSdpOf k c port)))
   \<and> (startItems s dir ps pacc = Inr (items, tr) \<longrightarrow>
      (\<forall>text \<in> set (sdpTexts tr).
         text \<in> set (sdpTexts (snd pacc)) \<or>
         (\<exists>p \<in> set ps. \<exists>c port. pickedCodec (p_kind p) (consumerRtp s (p_id p)) = Some c \<and>
            freePort s (p_id p) = Inr port \<and> text = perSdpOf (p_kind p) c port)))
   \<and> bindInputs k s dir (map (\<lambda>p. p\<lparr>p_rtp := f p\<rparr>) ps) acc = bindInputs k s dir ps acc
   \<and> startItems s dir (map (\<lambda>p. p\<lparr>p_rtp := f p\<rparr>) ps) pacc = startItems s dir ps pacc"
  using bindInputs_sdp [of k s dir ps acc b] startItems_sdp [of s dir ps pacc items tr]
    bindInputs_ignores_producer_rtp [of k s dir f ps acc]
    startItems_ignores_producer_rtp [of s dir f ps pacc]
  by blast

theorem sdp_from_consumer_parameters_witness:
  "(case bindInputs Video roomSfu ''d'' [camProducer]
           \<lparr>b_inputs = [], b_transports = [], b_consumers = [], b_trace = []\<rparr> of
      Inl e \<Rightarrow> []
    | Inr b \<Rightarrow> sdpTexts (b_trace b)) =
     [sdpText [''v=0'', ''o=- 0 0 IN IP4 127.0.0.1'', ''s=FFmpegInput'', ''c=IN IP4 127.0.0.1'',
               ''t=0 0'', ''m=video 15000 RTP/AVP 101'', ''a=rtpmap:101 VP8/90000'',
               ''a=rtcp:15001 IN IP4 127.0.0.1'', ''a=recvonly'']]
   \<and> (case startItems roomSfu ''d'' [micProducer] ([], []) of
      Inl e \<Rightarrow> []
    | Inr (items, tr) \<Rightarrow> sdpTexts tr) =
     [sdpText [''v=0'', ''o=- 0 0 IN IP4 127.0.0.1'', ''s=FFmpegInput'', ''c=IN IP4 127.0.0.1'',
               ''t=0 0'', ''m=audio 15000 RTP/AVP 100'', ''a=rtpmap:100 opus/48000/2'',
               ''a=recvonly'']]"
proof -
  have p: "pickedCodec Video (consumerRtp roomSfu ''v1'') = Some vp8ConsumerSide"
    "pickedCodec Audio (consumerRtp roomSfu ''a1'') = Some opusConsumerSide"
    by (simp_all add: pickedCodec_def roomSfu_def vp8ConsumerSide_def opusConsumerSide_def
          kind_str_def lower_vals incl_vals)
  have m: "mixedSdpOf Video vp8ConsumerSide 15000 =
     sdpText [''v=0'', ''o=- 0 0 IN IP4 127.0.0.1'', ''s=FFmpegInput'', ''c=IN IP4 127.0.0.1'',
               ''t=0 0'', ''m=video 15000 RTP/AVP 101'', ''a=rtpmap:101 VP8/90000'',
               ''a=rtcp:15001 IN IP4 127.0.0.1'', ''a=recvonly'']"
    "perSdpOf Audio opusConsumerSide 15000 =
     sdpText [''v=0'', ''o=- 0 0 IN IP4 127.0.0.1'', ''s=FFmpegInput'', ''c=IN IP4 127.0.0.1'',
               ''t=0 0'', ''m=audio 15000 RTP/AVP 100'', ''a=rtpmap:100 opus/48000/2'',
               ''a=recvonly'']"
    by (simp_all add: mixedSdpOf_def perSdpOf_def mediaSectionShape_def sdpPreamble_def mLine_def
          kind_str_def vp8ConsumerSide_def opusConsumerSide_def codecInfoOf_def seg_vals tmpl_def
          channels_or_2_def nat_str_vals)
  have a: "bindInputs Video roomSfu ''d'' [camProducer]
           \<lparr>b_inputs = [], b_transports = [], b_consumers = [], b_trace = []\<rparr> =
           Inr \<lparr>b_inputs = [\<lparr>in_kind = Video, in_sdpPath = ''d/v-v1.sdp''\<rparr>],
                b_transports = [''v1''], b_consumers = [(''v1'', Video)],
                b_trace = [CreatePlainTransport ''v1'', Consume ''v1'' ''v1'' True,
                           TransportConnect ''v1'' 15000 15001,
                           WriteFile ''d/v-v1.sdp'' (mixedSdpOf Video vp8ConsumerSide 15000)]\<rparr>"
    using p by (simp add: camProducer_def codecFrom_picked mixedSdpOf_eq [of Video, simplified]
          roomSfu_def Let_def)
  have b: "\<exists>items. startItems roomSfu ''d'' [micProducer] ([], []) =
           Inr (items, [CreatePlainTransport ''a1'', Consume ''a1'' ''a1'' True,
                        TransportConnect ''a1'' 15000 15001,
                        WriteFile ''d/audio-ann-a1.sdp'' (perSdpOf Audio opusConsumerSide 15000),
                        Spawn ''a1'' (perFfArgs Audio ''d/audio-ann-a1.sdp'' ''d/audio-ann-a1.webm''),
                        ConsumerResume ''a1''])"
    using p by (simp add: micProducer_def codecFrom_picked perSdpOf_eq roomSfu_def kind_str_def
          Let_def)
  from b obtain items where b': "startItems roomSfu ''d'' [micProducer] ([], []) =
           Inr (items, [CreatePlainTransport ''a1'', Consume ''a1'' ''a1'' True,
                        TransportConnect ''a1'' 15000 15001,
                        WriteFile ''d/audio-ann-a1.sdp'' (perSdpOf Audio opusConsumerSide 15000),
                        Spawn ''a1'' (perFfArgs Audio ''d/audio-ann-a1.sdp'' ''d/audio-ann-a1.webm''),
                        ConsumerResume ''a1''])" by blast
  from sdp_from_consumer_parameters [of Video roomSfu "''d''" "[camProducer]"
      "\<lparr>b_inputs = [], b_transports = [], b_consumers = [], b_trace = []\<rparr>" _
      "([], [])" items _ "\<lambda>p. None"] a b'
  show ?thesis by (simp add: m)
qed

lemma connect_ignores_consumer_parameters:
  "connectProducersToRecording (s\<lparr>consumerRtp := f\<rparr>) hv ha ps =
   connectProducersToRecording s hv ha ps"
  by (simp add: connectProducersToRecording_def)

text \<open>
  Property X2.  \<^verbatim>\<open>startRecording\<close> of \<^verbatim>\<open>recording-manager.js\<close> never reads the
  RTP parameters of the consumers it creates: its result, the SDP piped to the muxer
  included, is the same whatever those parameters are.
\<close>

theorem single_file_ignores_consumer_parameters:
  "startRecording roomReady routerReady producers (s\<lparr>consumerRtp := f\<rparr>) basePort now outDir =
   startRecording roomReady routerReady producers s basePort now outDir"
  unfolding startRecording_def connect_ignores_consumer_parameters by (rule refl)

end
